theory Spec2Isabelle
  imports Complex_Main
begin

section \<open>Python strings and numbers\<close>

text \<open>
  Log text is modelled as a list of 8-bit characters read as ASCII. The classes
  \<open>\w\<close> and \<open>\d\<close> of Python's \<open>re\<close> module also accept letters and digits beyond
  ASCII; no such character occurs in the lines and names studied below.
\<close>

definition is_digit :: "char \<Rightarrow> bool" where
  "is_digit c = (c \<in> set ''0123456789'')"

definition is_word :: "char \<Rightarrow> bool" where
  "is_word c =
     (c \<in> set ''abcdefghijklmnopqrstuvwxyzABCDEFGHIJKLMNOPQRSTUVWXYZ0123456789_'')"

definition lower :: "char \<Rightarrow> char" where
  "lower c =
     (case map_of (zip ''ABCDEFGHIJKLMNOPQRSTUVWXYZ'' ''abcdefghijklmnopqrstuvwxyz'') c of
        Some d \<Rightarrow> d
      | None \<Rightarrow> c)"

definition digit_val :: "char \<Rightarrow> nat" where
  "digit_val c =
     (case map_of (zip ''0123456789'' [0, 1, 2, 3, 4, 5, 6, 7, 8, 9]) c of
        Some n \<Rightarrow> n
      | None \<Rightarrow> 0)"

text \<open>
  \<open>int(s)\<close> for a string of decimal digits. The tracker calls it only on the text of a
  group \<open>[\d]+\<close>, where Python's \<open>int\<close> cannot raise.
\<close>

definition py_int :: "string \<Rightarrow> nat" where
  "py_int s = foldl (\<lambda>a c. 10 * a + digit_val c) 0 s"

text \<open>\<open>str(n)\<close> for a natural number, as an f-string renders it.\<close>

fun str_nat :: "nat \<Rightarrow> string" where
  "str_nat n =
     (if n < 10 then [''0123456789'' ! n]
      else str_nat (n div 10) @ [''0123456789'' ! (n mod 10)])"

declare str_nat.simps [simp del]

text \<open>An f-string renders the value \<open>None\<close> as the four letters \<open>None\<close>.\<close>

definition py_str_opt :: "string option \<Rightarrow> string" where
  "py_str_opt v = (case v of None \<Rightarrow> ''None'' | Some s \<Rightarrow> s)"


section \<open>Regular expressions: \<open>re.match\<close>\<close>

text \<open>
  The patterns of the sources use literals, \<open>^\<close>, \<open>.\<close>, character classes, alternation,
  the greedy operators \<open>*\<close>, \<open>+\<close>, \<open>?\<close> and named groups. A pattern is written as
  a syntax tree and matched by backtracking: the matcher returns every way the
  pattern can match a prefix of the text, in the order in which Python tries them,
  and \<open>re.match\<close> returns the first.
\<close>

datatype citem =
    W                 \<comment> \<open>\<open>\w\<close>\<close>
  | D                 \<comment> \<open>\<open>\d\<close>\<close>
  | Ch char           \<comment> \<open>a single character\<close>
  | Rng char char     \<comment> \<open>a range such as \<open>0-9\<close>\<close>

datatype rx =
    Eps               \<comment> \<open>the empty pattern\<close>
  | Bol               \<comment> \<open>\<open>^\<close>\<close>
  | Lit char
  | Dot               \<comment> \<open>\<open>.\<close>: any character but a newline\<close>
  | Cls "citem list"  \<comment> \<open>\<open>[...]\<close>\<close>
  | Cat rx rx
  | Alt rx rx         \<comment> \<open>\<open>a|b\<close>\<close>
  | Star rx           \<comment> \<open>greedy \<open>*\<close>\<close>
  | Grp string rx     \<comment> \<open>\<open>(?P<name>...)\<close>\<close>

definition Plus :: "rx \<Rightarrow> rx" where
  "Plus r = Cat r (Star r)"

definition Opt :: "rx \<Rightarrow> rx" where
  "Opt r = Alt r Eps"

definition lits :: "string \<Rightarrow> rx" where
  "lits s = foldr (\<lambda>c r. Cat (Lit c) r) s Eps"

definition seq :: "rx list \<Rightarrow> rx" where
  "seq rs = foldr Cat rs Eps"

definition alts :: "string list \<Rightarrow> rx" where
  "alts ws = foldr (\<lambda>w r. Alt (lits w) r) (butlast ws) (lits (last ws))"

text \<open>
  A matcher state: the number of characters consumed, the text that is left, and the
  groups captured so far (the most recent capture of a name first).
\<close>

type_synonym groups = "(string \<times> string) list"
type_synonym mstate = "nat \<times> string \<times> groups"

definition item_ok :: "bool \<Rightarrow> citem \<Rightarrow> char \<Rightarrow> bool" where
  "item_ok ci i a =
     (case i of
        W \<Rightarrow> is_word a
      | D \<Rightarrow> is_digit a
      | Ch c \<Rightarrow> (if ci then lower a = lower c else a = c)
      | Rng lo hi \<Rightarrow> (of_char lo :: nat) \<le> of_char a \<and> (of_char a :: nat) \<le> of_char hi)"

definition in_class :: "bool \<Rightarrow> citem list \<Rightarrow> char \<Rightarrow> bool" where
  "in_class ci its a = list_ex (\<lambda>i. item_ok ci i a) its"

fun step_char :: "(char \<Rightarrow> bool) \<Rightarrow> mstate \<Rightarrow> mstate list" where
  "step_char P (k, [], g) = []"
| "step_char P (k, a # as, g) = (if P a then [(Suc k, as, g)] else [])"

definition capture :: "string \<Rightarrow> mstate \<Rightarrow> mstate \<Rightarrow> mstate" where
  "capture n x y =
     (case x of (k, s, g) \<Rightarrow>
        case y of (k', s', g') \<Rightarrow> (k', s', (n, take (k' - k) s) # g'))"

text \<open>
  Greedy repetition: try one more round of the body first, and fall back to stopping
  here. A round that consumes nothing is not repeated; the bodies repeated in the
  sources (a class or \<open>.\<close>) always consume one character.
\<close>

primrec iter :: "nat \<Rightarrow> (mstate \<Rightarrow> mstate list) \<Rightarrow> mstate \<Rightarrow> mstate list" where
  "iter 0 f x = [x]"
| "iter (Suc n) f x =
     concat (map (iter n f)
       (filter (\<lambda>y. length (fst (snd y)) < length (fst (snd x))) (f x))) @ [x]"

primrec ms :: "rx \<Rightarrow> bool \<Rightarrow> mstate \<Rightarrow> mstate list" where
  "ms Eps ci x = [x]"
| "ms Bol ci x = (if fst x = 0 then [x] else [])"
| "ms (Lit c) ci x = step_char (\<lambda>a. if ci then lower a = lower c else a = c) x"
| "ms Dot ci x = step_char (\<lambda>a. a \<noteq> CHR 0x0A) x"
| "ms (Cls its) ci x = step_char (in_class ci its) x"
| "ms (Cat r1 r2) ci x = concat (map (ms r2 ci) (ms r1 ci x))"
| "ms (Alt r1 r2) ci x = ms r1 ci x @ ms r2 ci x"
| "ms (Star r) ci x = iter (length (fst (snd x))) (ms r ci) x"
| "ms (Grp n r) ci x = map (capture n x) (ms r ci x)"

text \<open>
  \<open>re.match(pattern, text)\<close> (\<open>ci\<close>: the flag \<open>re.IGNORECASE\<close>): \<open>None\<close> when the
  pattern matches no prefix of the text, otherwise the groups of the first match.
\<close>

definition re_match :: "rx \<Rightarrow> bool \<Rightarrow> string \<Rightarrow> groups option" where
  "re_match r ci s =
     (case ms r ci (0, s, []) of [] \<Rightarrow> None | (k, rest, g) # _ \<Rightarrow> Some g)"

text \<open>\<open>m.group(name)\<close>: the text of a group, \<open>None\<close> when it took no part in the match.\<close>

definition group :: "groups \<Rightarrow> string \<Rightarrow> string option" where
  "group g n = map_of g n"

text \<open>The keys of \<open>m.groupdict()\<close>: every named group of the pattern.\<close>

primrec group_names :: "rx \<Rightarrow> string list" where
  "group_names Eps = []"
| "group_names Bol = []"
| "group_names (Lit c) = []"
| "group_names Dot = []"
| "group_names (Cls its) = []"
| "group_names (Cat r1 r2) = group_names r1 @ group_names r2"
| "group_names (Alt r1 r2) = group_names r1 @ group_names r2"
| "group_names (Star r) = group_names r"
| "group_names (Grp n r) = n # group_names r"

section \<open>Detectors: the class \<open>ParseTarget\<close> and its subclasses\<close>

datatype error =
    ValueError string        \<comment> \<open>a Python \<open>ValueError\<close>, with its message\<close>
  | AttributeError string    \<comment> \<open>an attribute of \<open>None\<close> was read\<close>

text \<open>
  \<open>datetime.strptime\<close>, the time zone of the host and \<open>str\<close> of a datetime are library
  code and configuration of the host. They are parameters of the model:
  \<open>strptime\<close> is \<open>datetime.strptime(s, '[%a %b %d %H:%M:%S %Y]')\<close>, with \<open>None\<close> where
  Python raises \<open>ValueError\<close>; \<open>as_local\<close> is \<open>replace(tzinfo=local_tz)\<close>; \<open>as_utc\<close> is
  \<open>astimezone(timezone.utc)\<close>; \<open>str_dt\<close> is \<open>str\<close>.
\<close>

record 'dt pyenv =
  strptime :: "string \<Rightarrow> 'dt option"
  as_local :: "'dt \<Rightarrow> 'dt"
  as_utc :: "'dt \<Rightarrow> 'dt"
  str_dt :: "'dt \<Rightarrow> string"

text \<open>
  A trigger is a pattern of \<open>_search_list\<close>; the flag says that the pattern carries
  the inline flag \<open>(?i)\<close>. Python up to 3.10 applies an inline flag written at the end
  of a pattern to the whole pattern (with a deprecation warning), which is how the
  patterns of \<open>Gratss_Parser\<close> and \<open>TOD_Parser\<close> are read here.
\<close>

type_synonym trigger = "rx \<times> bool"

text \<open>Which \<open>_custom_match_hook\<close> a class has: the one of the base class or its own.\<close>

datatype hook = Default_hook | FTE_hook | Random_hook | TOD_hook

record 'dt parse_target =
  parse_target_ID :: nat
  short_description :: string
  search_list :: "trigger list"
  hook :: hook
  matching_line :: "string option"
  local_datetime :: "'dt option"
  utc_datetime :: "'dt option"
  parsing_player :: string
  field_separator :: string
  eqmarker :: string
  playername :: "string option"      \<comment> \<open>\<open>Random_Parser\<close> only\<close>
  known_targets :: "string list"      \<comment> \<open>\<open>TOD_Parser\<close> only\<close>

text \<open>\<open>(?P<name>[\w ]+)\<close>\<close>

definition named_ws :: "string \<Rightarrow> rx" where
  "named_ws n = Grp n (Plus (Cls [W, Ch CHR '' '']))"

text \<open>\<open>(?P<name>[0-9]+)\<close>\<close>

definition named_09 :: "string \<Rightarrow> rx" where
  "named_09 n = Grp n (Plus (Cls [Rng CHR ''0'' CHR ''9'']))"

definition ParseTarget_init :: "'dt parse_target" where
  "ParseTarget_init =
     \<lparr> parse_target_ID = 0,
       short_description = ''Generic Target Name spawn!'',
       search_list =
         [(seq [Bol, lits ''Generic Target Name begins to cast a spell''], False),
          (seq [Bol, lits ''Generic Target Name engages '', named_ws ''playername'',
                Lit CHR ''!''], False),
          (seq [Bol, lits ''Generic Target Name has been slain''], False),
          (seq [Bol, lits ''Generic Target Name says''], False),
          (seq [Bol, lits ''You have been slain by Generic Target Name''], False)],
       hook = Default_hook,
       matching_line = None,
       local_datetime = None,
       utc_datetime = None,
       parsing_player = ''Unknown'',
       field_separator = ''|'',
       eqmarker = ''EQ__'',
       playername = None,
       known_targets = [] \<rparr>"

definition VesselDrozlin_Parser :: "'dt parse_target" where
  "VesselDrozlin_Parser =
     ParseTarget_init
     \<lparr> parse_target_ID := 1,
       short_description := ''Vessel Drozlin spawn!'',
       search_list :=
         [(seq [Bol, lits ''Vessel Drozlin begins to cast a spell''], False),
          (seq [Bol, lits ''Vessel Drozlin engages '', named_ws ''playername'',
                Lit CHR ''!''], False),
          (seq [Bol, lits ''Vessel Drozlin has been slain''], False),
          (seq [Bol, lits ''Vessel Drozlin says''], False),
          (seq [Bol, lits ''You have been slain by Vessel Drozlin''], False)] \<rparr>"

definition VerinaTomb_Parser :: "'dt parse_target" where
  "VerinaTomb_Parser =
     ParseTarget_init
     \<lparr> parse_target_ID := 2,
       short_description := ''Verina Tomb spawn!'',
       search_list :=
         [(seq [Bol, lits ''Verina Tomb begins to cast a spell''], False),
          (seq [Bol, lits ''Verina Tomb engages '', named_ws ''playername'',
                Lit CHR ''!''], False),
          (seq [Bol, lits ''Verina Tomb has been slain''], False),
          (seq [Bol, lits ''Verina Tomb says''], False),
          (seq [Bol, lits ''You have been slain by Verina Tomb''], False)] \<rparr>"

definition MasterYael_Parser :: "'dt parse_target" where
  "MasterYael_Parser =
     ParseTarget_init
     \<lparr> parse_target_ID := 3,
       short_description := ''Master Yael spawn!'',
       search_list :=
         [(seq [Bol, lits ''Master Yael begins to cast a spell''], False),
          (seq [Bol, lits ''Master Yael engages '', named_ws ''playername'',
                Lit CHR ''!''], False),
          (seq [Bol, lits ''Master Yael has been slain''], False),
          (seq [Bol, lits ''Master Yael says''], False),
          (seq [Bol, lits ''You have been slain by Master Yael''], False)] \<rparr>"

definition DainFrostreaverIV_Parser :: "'dt parse_target" where
  "DainFrostreaverIV_Parser =
     ParseTarget_init
     \<lparr> parse_target_ID := 4,
       short_description := ''Dain Frostreaver IV spawn!'',
       search_list :=
         [(seq [Bol, lits ''Dain Frostreaver IV engages '', named_ws ''playername'',
                Lit CHR ''!''], False),
          (seq [Bol, lits ''Dain Frostreaver IV says''], False),
          (seq [Bol, lits ''Dain Frostreaver IV has been slain''], False),
          (seq [Bol, lits ''You have been slain by Dain Frostreaver IV''], False)] \<rparr>"

definition Severilous_Parser :: "'dt parse_target" where
  "Severilous_Parser =
     ParseTarget_init
     \<lparr> parse_target_ID := 5,
       short_description := ''Severilous spawn!'',
       search_list :=
         [(seq [Bol, lits ''Severilous begins to cast a spell''], False),
          (seq [Bol, lits ''Severilous engages '', named_ws ''playername'',
                Lit CHR ''!''], False),
          (seq [Bol, lits ''Severilous has been slain''], False),
          (seq [Bol, lits ''Severilous says''], False),
          (seq [Bol, lits ''You have been slain by Severilous''], False)] \<rparr>"

definition CazicThule_Parser :: "'dt parse_target" where
  "CazicThule_Parser =
     ParseTarget_init
     \<lparr> parse_target_ID := 6,
       short_description := ''Cazic Thule spawn!'',
       search_list :=
         [(seq [Bol, lits ''Cazic Thule engages '', named_ws ''playername'',
                Lit CHR ''!''], False),
          (seq [Bol, lits ''Cazic Thule has been slain''], False),
          (seq [Bol, lits ''Cazic Thule says''], False),
          (seq [Bol, lits ''You have been slain by Cazic Thule''], False),
          (lits (''Cazic Thule  shouts 'Denizens of Fear, your master commands you '' @
                 ''to come forth to his aid!!''), False)] \<rparr>"

definition FTE_Parser :: "'dt parse_target" where
  "FTE_Parser =
     ParseTarget_init
     \<lparr> parse_target_ID := 7,
       short_description := ''FTE!'',
       search_list :=
         [(seq [Bol, named_ws ''target_name'', lits '' engages '',
                named_ws ''playername'', Lit CHR ''!''], False)],
       hook := FTE_hook \<rparr>"

definition PlayerSlain_Parser :: "'dt parse_target" where
  "PlayerSlain_Parser =
     ParseTarget_init
     \<lparr> parse_target_ID := 8,
       short_description := ''Player Slain!'',
       search_list :=
         [(seq [Bol, lits ''You have been slain by '', named_ws ''target_name''], False)] \<rparr>"

definition Earthquake_Parser :: "'dt parse_target" where
  "Earthquake_Parser =
     ParseTarget_init
     \<lparr> parse_target_ID := 9,
       short_description := ''Earthquake!'',
       search_list :=
         [(seq [Bol, lits (''The Gods of Norrath emit a sinister laugh as they toy '' @
                           ''with their creations'')], False)] \<rparr>"

definition Random_Parser :: "'dt parse_target" where
  "Random_Parser =
     ParseTarget_init
     \<lparr> playername := None,
       parse_target_ID := 10,
       short_description := ''Random!'',
       search_list :=
         [(seq [lits ''**A Magic Die is rolled by '', named_ws ''playername'',
                Lit CHR ''.''], False),
          (seq [lits ''**It could have been any number from '', named_09 ''low'',
                lits '' to '', named_09 ''high'',
                lits '', but this time it turned up a '', named_09 ''value'',
                Lit CHR ''.''], False)],
       hook := Random_hook \<rparr>"

definition Gratss_Parser :: "'dt parse_target" where
  "Gratss_Parser =
     ParseTarget_init
     \<lparr> parse_target_ID := 12,
       short_description := ''Gratss'',
       search_list := [(seq [Star Dot, lits ''gratss''], True)] \<rparr>"

definition TOD_known_targets :: "string list" where
  "TOD_known_targets =
    [''Kelorek`Dar'', ''Vaniki'', ''Vilefang'', ''Zlandicar'', ''Narandi the Wretched'',
     ''Lodizal'', ''Stormfeather'', ''Dain Frostreaver IV'', ''Derakor the Vindicator'',
     ''Keldor Dek`Torek'', ''King Tormax'', ''The Statue of Rallos Zek'',
     ''The Avatar of War'', ''Tunare'', ''Lord Yelinak'', ''Master of the Guard'',
     ''The Final Arbiter'', ''The Progenitor'', ''An angry goblin'', ''Casalen'',
     ''Dozekar the Cursed'', ''Essedera'', ''Grozzmel'', ''Krigara'', ''Lepethida'',
     ''Midayor'', ''Tavekalem'', ''Ymmeln'', ''Aaryonar'', ''Cekenar'',
     ''Dagarn the Destroyer'', ''Eashen of the Sky'', ''Ikatiar the Venom'', ''Jorlleag'',
     ''Lady Mirenilla'', ''Lady Nevederia'', ''Lord Feshlak'', ''Lord Koi`Doken'',
     ''Lord Kreizenn'', ''Lord Vyemm'', ''Sevalak'', ''Vulak`Aerr'', ''Zlexak'',
     ''Gozzrem'', ''Lendiniara the Keeper'', ''Telkorenar'', ''Wuoshi'', ''Druushk'',
     ''Hoshkar'', ''Nexona'', ''Phara Dar'', ''Silverwing'', ''Xygoz'',
     ''Lord Doljonijiarnimorinar'', ''Velketor the Sorcerer'', ''Guardian Kozzalym'',
     ''Klandicar'', ''Myga NE PH'', ''Myga ToV PH'', ''Scout Charisa'', ''Sontalak'',
     ''Gorenaire'', ''Vessel Drozlin'', ''Severilous'', ''Venril Sathir'', ''Trakanon'',
     ''Talendor'', ''Faydedar'', ''a shady goblin'', ''Phinigel Autropos'',
     ''Lord Nagafen'', ''Zordak Ragefire'', ''Verina Tomb'', ''Lady Vox'',
     ''A dracoliche'', ''Cazic Thule'', ''Dread'', ''Fright'', ''Terror'',
     ''Wraith of a Shissir'', ''Innoruuk'', ''Noble Dojorn'', ''Nillipuss'',
     ''Master Yael'', ''Sir Lucan D`Lere'']"

definition TOD_Parser :: "'dt parse_target" where
  "TOD_Parser =
     ParseTarget_init
     \<lparr> parse_target_ID := 13,
       short_description := ''TOD'',
       search_list :=
         [(seq [Star Dot, lits ''tod''], True),
          (seq [Bol, named_ws ''target_name'', lits '' has been slain''], False)],
       known_targets := TOD_known_targets,
       hook := TOD_hook \<rparr>"

definition GMOTD_Parser :: "'dt parse_target" where
  "GMOTD_Parser =
     ParseTarget_init
     \<lparr> parse_target_ID := 14,
       short_description := ''GMOTD'',
       search_list := [(seq [Bol, lits ''GUILD MOTD:''], False)] \<rparr>"

text \<open>
  \<open>_custom_match_hook(m, line)\<close>, called with a match \<open>m\<close> of the pattern \<open>r\<close>: whether
  the match counts, and the detector as the hook leaves it.
\<close>

definition custom_match_hook ::
  "'dt parse_target \<Rightarrow> rx \<Rightarrow> groups \<Rightarrow> string \<Rightarrow> bool \<times> 'dt parse_target" where
  "custom_match_hook d r m line =
     (case hook d of
        Default_hook \<Rightarrow> (True, d)
      | FTE_hook \<Rightarrow>
          (True, d\<lparr>short_description :=
             ''FTE: '' @ py_str_opt (group m ''target_name'') @ '' engages '' @
             py_str_opt (group m ''playername'')\<rparr>)
      | Random_hook \<Rightarrow>
          (if ''playername'' \<in> set (group_names r)
           then (False, d\<lparr>playername := group m ''playername''\<rparr>)
           else (True, d\<lparr>short_description :=
                   ''Random roll: '' @ py_str_opt (playername d) @ '', '' @
                   py_str_opt (group m ''low'') @ ''-'' @ py_str_opt (group m ''high'') @
                   '', Value='' @ py_str_opt (group m ''value''),
                 playername := None\<rparr>))
      | TOD_hook \<Rightarrow>
          (True,
           if ''target_name'' \<in> set (group_names r) \<and>
              (case group m ''target_name'' of
                 None \<Rightarrow> False
               | Some t \<Rightarrow> t \<in> set (known_targets d))
           then d\<lparr>short_description :=
                  ''TOD (Slain Message): '' @ py_str_opt (group m ''target_name'')\<rparr>
           else d\<lparr>short_description := ''TOD''\<rparr>))"

text \<open>
  \<open>_set_timestamps(line)\<close>: the line is stored first; \<open>strptime\<close> then raises
  \<open>ValueError\<close> on a prefix that is not a time stamp.
\<close>

definition set_timestamps ::
  "'dt pyenv \<Rightarrow> 'dt parse_target \<Rightarrow> string \<Rightarrow> error + 'dt parse_target" where
  "set_timestamps env d line =
     (let d1 = d\<lparr>matching_line := Some line\<rparr>;
          eq_timestamp = take 26 line
      in case strptime env eq_timestamp of
           None \<Rightarrow> Inl (ValueError ''time data does not match format'')
         | Some eq_datetime \<Rightarrow>
             (let loc = as_local env eq_datetime
              in Inr (d1\<lparr>local_datetime := Some loc,
                         utc_datetime := Some (as_utc env loc)\<rparr>)))"

text \<open>
  The loop of \<open>matches\<close> over \<open>_search_list\<close>: every trigger is tried, also after one has
  matched. The pair carries \<open>rv\<close> and the detector.
\<close>

fun matches_loop ::
  "'dt pyenv \<Rightarrow> string \<Rightarrow> string \<Rightarrow> trigger list \<Rightarrow> bool \<times> 'dt parse_target \<Rightarrow>
   error + bool \<times> 'dt parse_target" where
  "matches_loop env line trunc_line [] acc = Inr acc"
| "matches_loop env line trunc_line (t # ts) (rv, d) =
     (case re_match (fst t) (snd t) trunc_line of
        None \<Rightarrow> matches_loop env line trunc_line ts (rv, d)
      | Some m \<Rightarrow>
          (case custom_match_hook d (fst t) m line of
             (False, d1) \<Rightarrow> matches_loop env line trunc_line ts (rv, d1)
           | (True, d1) \<Rightarrow>
               (case set_timestamps env d1 line of
                  Inl e \<Rightarrow> Inl e
                | Inr d2 \<Rightarrow> matches_loop env line trunc_line ts (True, d2))))"

definition matches ::
  "'dt pyenv \<Rightarrow> 'dt parse_target \<Rightarrow> string \<Rightarrow> error + bool \<times> 'dt parse_target" where
  "matches env d line =
     (let trunc_line = drop 27 line
      in matches_loop env line trunc_line (search_list d) (False, d))"

text \<open>\<open>report()\<close>\<close>

definition report :: "'dt pyenv \<Rightarrow> 'dt parse_target \<Rightarrow> string" where
  "report env d =
     eqmarker d @ field_separator d @
     parsing_player d @ field_separator d @
     str_nat (parse_target_ID d) @ field_separator d @
     short_description d @ field_separator d @
     py_str_opt (map_option (str_dt env) (utc_datetime d)) @ field_separator d @
     py_str_opt (matching_line d)"


section \<open>The registry: \<open>ParseTargetParser\<close>\<close>

definition parse_target_list :: "'dt parse_target list" where
  "parse_target_list =
     [VesselDrozlin_Parser, VerinaTomb_Parser, DainFrostreaverIV_Parser,
      Severilous_Parser, CazicThule_Parser, MasterYael_Parser, FTE_Parser,
      PlayerSlain_Parser, Earthquake_Parser, Random_Parser, Gratss_Parser,
      TOD_Parser, GMOTD_Parser]"

definition set_char_name :: "'dt parse_target list \<Rightarrow> string \<Rightarrow> 'dt parse_target list" where
  "set_char_name ds name = map (\<lambda>d. d\<lparr>parsing_player := name\<rparr>) ds"

text \<open>
  The loop of \<open>ParseTargetParser.process_line\<close> over the detectors: the detectors as
  the line leaves them, and the reports handed to the loggers, in order. An exception
  raised by \<open>matches\<close> leaves the loop. (The call of the base class that precedes the
  loop is in a module that is not part of the sources.)
\<close>

fun ParseTargetParser_process_line ::
  "'dt pyenv \<Rightarrow> 'dt parse_target list \<Rightarrow> string \<Rightarrow>
   error + 'dt parse_target list \<times> string list" where
  "ParseTargetParser_process_line env [] line = Inr ([], [])"
| "ParseTargetParser_process_line env (d # ds) line =
     (case matches env d line of
        Inl e \<Rightarrow> Inl e
      | Inr (rv, d1) \<Rightarrow>
          (case ParseTargetParser_process_line env ds line of
             Inl e \<Rightarrow> Inl e
           | Inr (ds1, reports) \<Rightarrow>
               Inr (d1 # ds1, (if rv then [report env d1] else []) @ reports)))"

section \<open>The tailer: \<open>EverquestLogFile\<close>\<close>

text \<open>
  The file system as the tailer sees it: what \<open>glob.glob\<close> returns for a mask, the
  modification time of a path, whether \<open>open\<close> and \<open>seek\<close> succeed on a path or raise
  \<open>OSError\<close>, and the size of a file.
\<close>

record fsys =
  glob_glob :: "string \<Rightarrow> string list"
  getmtime :: "string \<Rightarrow> rat"
  openable :: "string \<Rightarrow> bool"
  seekable :: "string \<Rightarrow> bool"
  fsize :: "string \<Rightarrow> nat"

record filehandle =
  path :: string
  position :: nat
  closed :: bool

text \<open>The calls a method makes on the file system, in order.\<close>

datatype fileop = Op_open string | Op_seek_end string | Op_close string

text \<open>
  The fields of the tailer that its file methods read or write. (\<open>prevtime\<close> and
  \<open>heartbeat\<close> belong to the polling loop of the thread.)
\<close>

record elf =
  base_directory :: string
  logs_directory :: string
  char_name :: string
  server_name :: string
  filename :: string
  elf_file :: "filehandle option"    \<comment> \<open>the field \<open>file\<close>\<close>
  parsing :: bool

definition build_filename :: "elf \<Rightarrow> string \<Rightarrow> string" where
  "build_filename e charname =
     base_directory e @ logs_directory e @ ''eqlog_'' @ charname @ ''_'' @
     server_name e @ ''.txt''"

definition EverquestLogFile_init :: "string \<Rightarrow> string \<Rightarrow> string \<Rightarrow> elf" where
  "EverquestLogFile_init base logs server =
     (let e = \<lparr> base_directory = base, logs_directory = logs, char_name = ''Unknown'',
                 server_name = server, filename = [], elf_file = None, parsing = False \<rparr>
      in e\<lparr>filename := build_filename e (char_name e)\<rparr>)"

definition is_parsing :: "elf \<Rightarrow> bool" where
  "is_parsing e = parsing e"

text \<open>
  \<open>open(charname, filename, seek_end)\<close>: the result, the tailer afterwards and the calls
  made. Both \<open>open\<close> and \<open>seek\<close> stand inside the \<open>try\<close>; the handle is assigned before
  the seek.
\<close>

definition elf_open ::
  "fsys \<Rightarrow> elf \<Rightarrow> string \<Rightarrow> string \<Rightarrow> bool \<Rightarrow> bool \<times> elf \<times> fileop list" where
  "elf_open fs e charname fname seek_end =
     (if \<not> openable fs fname then (False, e, [Op_open fname])
      else
        (let h = \<lparr>path = fname, position = 0, closed = False\<rparr>;
             e1 = e\<lparr>elf_file := Some h\<rparr>
         in if seek_end \<and> \<not> seekable fs fname
            then (False, e1, [Op_open fname, Op_seek_end fname])
            else
              (let e2 = (if seek_end
                         then e1\<lparr>elf_file := Some (h\<lparr>position := fsize fs fname\<rparr>)\<rparr>
                         else e1)
               in (True,
                   e2\<lparr>char_name := charname, filename := fname, parsing := True\<rparr>,
                   Op_open fname # (if seek_end then [Op_seek_end fname] else [])))))"

text \<open>\<open>close()\<close>\<close>

definition elf_close :: "elf \<Rightarrow> error + elf \<times> fileop list" where
  "elf_close e =
     (case elf_file e of
        None \<Rightarrow> Inl (AttributeError ''close'')
      | Some h \<Rightarrow> Inr (e\<lparr>elf_file := Some (h\<lparr>closed := True\<rparr>), parsing := False\<rparr>,
                       [Op_close (path h)]))"

text \<open>
  The pattern that \<open>open_latest\<close> builds from the mask is compiled from text that comes
  from the configuration. The directories and the server name are read as plain
  pattern text: an ordinary character stands for itself, a backslash (doubled by the
  first \<open>replace\<close>) stands for itself, \<open>.\<close> matches any character. Text with another
  special character of the pattern language is outside the model (\<open>None\<close>).
\<close>

definition rx_special :: "char \<Rightarrow> bool" where
  "rx_special c = (c \<in> set ''^$*+?{}[]|()'')"

fun rx_of_text :: "string \<Rightarrow> rx option" where
  "rx_of_text [] = Some Eps"
| "rx_of_text (c # cs) =
     (if rx_special c then None
      else case rx_of_text cs of
             None \<Rightarrow> None
           | Some r \<Rightarrow> Some (Cat (if c = CHR ''.'' then Dot else Lit c) r))"

text \<open>
  \<open>mask.replace('\\', '\\\\').replace('eqlog_*_', 'eqlog_(?P<charname>[\\w ]+)_')\<close>,
  compiled. Plain text holds no \<open>*\<close>, so the second \<open>replace\<close> rewrites exactly the
  \<open>eqlog_*_\<close> that the mask was built with.
\<close>

definition charname_regexp :: "elf \<Rightarrow> rx option" where
  "charname_regexp e =
     (case (rx_of_text (base_directory e @ logs_directory e), rx_of_text (server_name e)) of
        (Some dir, Some srv) \<Rightarrow>
          Some (seq [dir, lits ''eqlog_'', named_ws ''charname'', Lit CHR ''_'', srv, Dot,
                     lits ''txt''])
      | _ \<Rightarrow> None)"

datatype 'a outcome =
    Raised error          \<comment> \<open>the call raised\<close>
  | Returned 'a
  | Not_modelled          \<comment> \<open>the configuration is outside the model\<close>

text \<open>
  \<open>files.sort(key=os.path.getmtime, reverse=True)\<close>: descending, and stable (files of
  equal time keep their order).
\<close>

definition sort_latest_first :: "fsys \<Rightarrow> string list \<Rightarrow> string list" where
  "sort_latest_first fs files = rev (sort_key (getmtime fs) (rev files))"

definition open_latest :: "fsys \<Rightarrow> elf \<Rightarrow> bool \<Rightarrow> (bool \<times> elf \<times> fileop list) outcome" where
  "open_latest fs e seek_end =
     (let mask = base_directory e @ logs_directory e @ ''eqlog_*_'' @ server_name e @ ''.txt'';
          files = sort_latest_first fs (glob_glob fs mask)
      in case files of
           [] \<Rightarrow> Raised (ValueError (''Unable to open any log files in directory ['' @
                                     base_directory e @ '']''))
         | latest_file # _ \<Rightarrow>
             (case charname_regexp e of
                None \<Rightarrow> Not_modelled
              | Some r \<Rightarrow>
                  (case re_match r False latest_file of
                     None \<Rightarrow> Raised (AttributeError ''group'')
                   | Some m \<Rightarrow>
                       (let cname = py_str_opt (group m ''charname'')
                        in if is_parsing e \<and> filename e = latest_file
                           then Returned (False, e, [])
                           else if is_parsing e \<and> filename e \<noteq> latest_file
                           then (case elf_close e of
                                   Inl err \<Rightarrow> Raised err
                                 | Inr (e1, ops1) \<Rightarrow>
                                     (case elf_open fs e1 cname latest_file seek_end of
                                        (rv, e2, ops2) \<Rightarrow> Returned (rv, e2, ops1 @ ops2)))
                           else if \<not> is_parsing e
                           then Returned (elf_open fs e cname latest_file seek_end)
                           else Returned (False, e, [])))))"


section \<open>The pet tracker: \<open>PetTracker\<close>\<close>

record PetStats =
  stat_rank :: nat
  stat_pet_level :: nat
  stat_max_melee :: nat
  stat_max_bashkick :: nat
  stat_max_backstab :: nat
  stat_lifetap :: nat

record PetSpell =
  spell_name :: string
  eq_class :: string
  caster_level :: nat
  pet_stats_list :: "PetStats list"

text \<open>
  A pet. Its level is a number of the table or the result of a true division
  (\<open>/\<close>), a Python float; it is modelled as a rational number. A float holds the
  quotient of an integer below \<open>2^53\<close> by 2 or by 4 exactly.
\<close>

record Pet =
  pet_name :: "string option"
  name_pending :: bool
  lifetap_pending :: bool
  pet_spell :: PetSpell
  max_melee :: nat
  pet_rank :: nat
  pet_level :: rat

definition Pet_init :: "PetSpell \<Rightarrow> Pet" where
  "Pet_init sp =
     \<lparr> pet_name = None, name_pending = True, lifetap_pending = False, pet_spell = sp,
       max_melee = 0, pet_rank = 0, pet_level = 0 \<rparr>"

text \<open>
  What the tracker hands to \<open>client.send\<close>: a text, or the pet itself as it is at that
  moment.
\<close>

datatype notice = Text string | Pet_report Pet

definition created_report :: "Pet \<Rightarrow> string" where
  "created_report p =
     ''Pet created: '' @ py_str_opt (pet_name p) @ '' ('' @ spell_name (pet_spell p) @ '')''"

definition load_pet_dict :: "(string \<times> PetSpell) list" where
  "load_pet_dict =
     [(''Bone Walk'',
       \<lparr>spell_name = ''Bone Walk'', eq_class = ''Necro'', caster_level = 8,
         pet_stats_list =
          [\<lparr>stat_rank = 1, stat_pet_level = 6, stat_max_melee = 8, stat_max_bashkick = 8,
             stat_max_backstab = 0, stat_lifetap = 0\<rparr>,
           \<lparr>stat_rank = 2, stat_pet_level = 7, stat_max_melee = 10, stat_max_bashkick = 10,
             stat_max_backstab = 0, stat_lifetap = 0\<rparr>,
           \<lparr>stat_rank = 3, stat_pet_level = 8, stat_max_melee = 12, stat_max_bashkick = 12,
             stat_max_backstab = 0, stat_lifetap = 0\<rparr>,
           \<lparr>stat_rank = 4, stat_pet_level = 9, stat_max_melee = 14, stat_max_bashkick = 13,
             stat_max_backstab = 0, stat_lifetap = 0\<rparr>]\<rparr>),
      (''Convoke Shadow'',
       \<lparr>spell_name = ''Convoke Shadow'', eq_class = ''Necro'', caster_level = 12,
         pet_stats_list =
          [\<lparr>stat_rank = 1, stat_pet_level = 8, stat_max_melee = 10, stat_max_bashkick = 10,
             stat_max_backstab = 0, stat_lifetap = 0\<rparr>,
           \<lparr>stat_rank = 2, stat_pet_level = 9, stat_max_melee = 12, stat_max_bashkick = 12,
             stat_max_backstab = 0, stat_lifetap = 0\<rparr>,
           \<lparr>stat_rank = 3, stat_pet_level = 10, stat_max_melee = 14, stat_max_bashkick = 14,
             stat_max_backstab = 0, stat_lifetap = 0\<rparr>,
           \<lparr>stat_rank = 4, stat_pet_level = 11, stat_max_melee = 16, stat_max_bashkick = 16,
             stat_max_backstab = 0, stat_lifetap = 0\<rparr>]\<rparr>),
      (''Restless Bones'',
       \<lparr>spell_name = ''Restless Bones'', eq_class = ''Necro'', caster_level = 16,
         pet_stats_list =
          [\<lparr>stat_rank = 1, stat_pet_level = 12, stat_max_melee = 12, stat_max_bashkick = 12,
             stat_max_backstab = 0, stat_lifetap = 0\<rparr>,
           \<lparr>stat_rank = 2, stat_pet_level = 13, stat_max_melee = 14, stat_max_bashkick = 14,
             stat_max_backstab = 0, stat_lifetap = 0\<rparr>,
           \<lparr>stat_rank = 3, stat_pet_level = 14, stat_max_melee = 16, stat_max_bashkick = 15,
             stat_max_backstab = 0, stat_lifetap = 0\<rparr>,
           \<lparr>stat_rank = 4, stat_pet_level = 15, stat_max_melee = 18, stat_max_bashkick = 15,
             stat_max_backstab = 0, stat_lifetap = 0\<rparr>,
           \<lparr>stat_rank = 5, stat_pet_level = 16, stat_max_melee = 20, stat_max_bashkick = 16,
             stat_max_backstab = 0, stat_lifetap = 0\<rparr>]\<rparr>),
      (''Animate Dead'',
       \<lparr>spell_name = ''Animate Dead'', eq_class = ''Necro'', caster_level = 20,
         pet_stats_list =
          [\<lparr>stat_rank = 1, stat_pet_level = 15, stat_max_melee = 14, stat_max_bashkick = 14,
             stat_max_backstab = 0, stat_lifetap = 0\<rparr>,
           \<lparr>stat_rank = 2, stat_pet_level = 16, stat_max_melee = 16, stat_max_bashkick = 15,
             stat_max_backstab = 0, stat_lifetap = 0\<rparr>,
           \<lparr>stat_rank = 3, stat_pet_level = 17, stat_max_melee = 18, stat_max_bashkick = 15,
             stat_max_backstab = 0, stat_lifetap = 0\<rparr>,
           \<lparr>stat_rank = 4, stat_pet_level = 18, stat_max_melee = 20, stat_max_bashkick = 16,
             stat_max_backstab = 0, stat_lifetap = 0\<rparr>,
           \<lparr>stat_rank = 5, stat_pet_level = 19, stat_max_melee = 22, stat_max_bashkick = 16,
             stat_max_backstab = 0, stat_lifetap = 0\<rparr>]\<rparr>),
      (''Haunting Corpse'',
       \<lparr>spell_name = ''Haunting Corpse'', eq_class = ''Necro'', caster_level = 24,
         pet_stats_list =
          [\<lparr>stat_rank = 1, stat_pet_level = 18, stat_max_melee = 18, stat_max_bashkick = 15,
             stat_max_backstab = 0, stat_lifetap = 0\<rparr>,
           \<lparr>stat_rank = 2, stat_pet_level = 19, stat_max_melee = 20, stat_max_bashkick = 16,
             stat_max_backstab = 0, stat_lifetap = 0\<rparr>,
           \<lparr>stat_rank = 3, stat_pet_level = 20, stat_max_melee = 22, stat_max_bashkick = 16,
             stat_max_backstab = 0, stat_lifetap = 0\<rparr>,
           \<lparr>stat_rank = 4, stat_pet_level = 21, stat_max_melee = 23, stat_max_bashkick = 17,
             stat_max_backstab = 0, stat_lifetap = 0\<rparr>,
           \<lparr>stat_rank = 5, stat_pet_level = 22, stat_max_melee = 26, stat_max_bashkick = 17,
             stat_max_backstab = 0, stat_lifetap = 0\<rparr>]\<rparr>),
      (''Invoke Death'',
       \<lparr>spell_name = ''Invoke Death'', eq_class = ''Necro'', caster_level = 49,
         pet_stats_list =
          [\<lparr>stat_rank = 1, stat_pet_level = 37, stat_max_melee = 47, stat_max_bashkick = 22,
             stat_max_backstab = 0, stat_lifetap = 38\<rparr>,
           \<lparr>stat_rank = 2, stat_pet_level = 38, stat_max_melee = 49, stat_max_bashkick = 23,
             stat_max_backstab = 0, stat_lifetap = 39\<rparr>,
           \<lparr>stat_rank = 3, stat_pet_level = 39, stat_max_melee = 51, stat_max_bashkick = 23,
             stat_max_backstab = 0, stat_lifetap = 40\<rparr>,
           \<lparr>stat_rank = 4, stat_pet_level = 40, stat_max_melee = 52, stat_max_bashkick = 24,
             stat_max_backstab = 0, stat_lifetap = 41\<rparr>,
           \<lparr>stat_rank = 5, stat_pet_level = 41, stat_max_melee = 55, stat_max_bashkick = 24,
             stat_max_backstab = 0, stat_lifetap = 42\<rparr>]\<rparr>),
      (''Minion of Shadows'',
       \<lparr>spell_name = ''Minion of Shadows'', eq_class = ''Necro'', caster_level = 53,
         pet_stats_list =
          [\<lparr>stat_rank = 1, stat_pet_level = 40, stat_max_melee = 49, stat_max_bashkick = 0,
             stat_max_backstab = 147, stat_lifetap = 40\<rparr>,
           \<lparr>stat_rank = 2, stat_pet_level = 41, stat_max_melee = 51, stat_max_bashkick = 0,
             stat_max_backstab = 153, stat_lifetap = 41\<rparr>,
           \<lparr>stat_rank = 3, stat_pet_level = 42, stat_max_melee = 52, stat_max_bashkick = 0,
             stat_max_backstab = 159, stat_lifetap = 42\<rparr>,
           \<lparr>stat_rank = 4, stat_pet_level = 43, stat_max_melee = 55, stat_max_bashkick = 0,
             stat_max_backstab = 165, stat_lifetap = 43\<rparr>,
           \<lparr>stat_rank = 5, stat_pet_level = 44, stat_max_melee = 56, stat_max_bashkick = 0,
             stat_max_backstab = 171, stat_lifetap = 44\<rparr>]\<rparr>),
      (''Servant of Bones'',
       \<lparr>spell_name = ''Servant of Bones'', eq_class = ''Necro'', caster_level = 56,
         pet_stats_list =
          [\<lparr>stat_rank = 1, stat_pet_level = 40, stat_max_melee = 51, stat_max_bashkick = 63,
             stat_max_backstab = 0, stat_lifetap = 41\<rparr>,
           \<lparr>stat_rank = 2, stat_pet_level = 41, stat_max_melee = 52, stat_max_bashkick = 65,
             stat_max_backstab = 0, stat_lifetap = 42\<rparr>,
           \<lparr>stat_rank = 3, stat_pet_level = 42, stat_max_melee = 55, stat_max_bashkick = 66,
             stat_max_backstab = 0, stat_lifetap = 43\<rparr>,
           \<lparr>stat_rank = 4, stat_pet_level = 43, stat_max_melee = 56, stat_max_bashkick = 68,
             stat_max_backstab = 0, stat_lifetap = 44\<rparr>,
           \<lparr>stat_rank = 5, stat_pet_level = 44, stat_max_melee = 59, stat_max_bashkick = 69,
             stat_max_backstab = 0, stat_lifetap = 45\<rparr>]\<rparr>),
      (''Zumaik`s Animation'',
       \<lparr>spell_name = ''Zumaik`s Animation'', eq_class = ''Enchanter'', caster_level = 55,
         pet_stats_list =
          [\<lparr>stat_rank = 1, stat_pet_level = 44, stat_max_melee = 49, stat_max_bashkick = 23,
             stat_max_backstab = 0, stat_lifetap = 0\<rparr>,
           \<lparr>stat_rank = 2, stat_pet_level = 45, stat_max_melee = 51, stat_max_bashkick = 23,
             stat_max_backstab = 0, stat_lifetap = 0\<rparr>,
           \<lparr>stat_rank = 3, stat_pet_level = 46, stat_max_melee = 52, stat_max_bashkick = 24,
             stat_max_backstab = 0, stat_lifetap = 0\<rparr>,
           \<lparr>stat_rank = 4, stat_pet_level = 47, stat_max_melee = 55, stat_max_bashkick = 24,
             stat_max_backstab = 0, stat_lifetap = 0\<rparr>,
           \<lparr>stat_rank = 5, stat_pet_level = 48, stat_max_melee = 56, stat_max_bashkick = 25,
             stat_max_backstab = 0, stat_lifetap = 0\<rparr>]\<rparr>),
      (''CharmPet'',
       \<lparr>spell_name = ''CharmPet'', eq_class = ''UnknownClass'', caster_level = 0,
         pet_stats_list =
          [\<lparr>stat_rank = 0, stat_pet_level = 0, stat_max_melee = 0, stat_max_bashkick = 0,
             stat_max_backstab = 0, stat_lifetap = 0\<rparr>]\<rparr>)]"

text \<open>
  The tracker: the current pet and the dictionary of pet spells. (The list \<open>all_pets\<close>
  is only appended to and never read; it is left out.)
\<close>

record PetTracker =
  current_pet :: "Pet option"
  pet_dict :: "(string \<times> PetSpell) list"

definition PetTracker_init :: PetTracker where
  "PetTracker_init = \<lparr> current_pet = None, pet_dict = load_pet_dict \<rparr>"

text \<open>\<open>[\w` ]+\<close> and \<open>[\d]+\<close> as named groups.\<close>

definition named_wts :: "string \<Rightarrow> rx" where
  "named_wts n = Grp n (Plus (Cls [W, Ch CHR ''`'', Ch CHR '' '']))"

definition named_d :: "string \<Rightarrow> rx" where
  "named_d n = Grp n (Plus (Cls [D]))"

text \<open>
  The patterns of \<open>process_line\<close>. The pet's name is formatted into four of them, a
  name that is still \<open>None\<close> as the text \<open>None\<close>. A name is the text of a group
  \<open>[\w ]+\<close> or \<open>[\w` ]+\<close>, so it holds no special character and stands for itself.
\<close>

definition rx_loading :: rx where
  "rx_loading = seq [Bol, lits ''LOADING, PLEASE WAIT'']"

definition rx_disperses :: "string option \<Rightarrow> rx" where
  "rx_disperses name = seq [Bol, lits (py_str_opt name @ '' disperses'')]"

definition rx_failed :: "string option \<Rightarrow> rx" where
  "rx_failed name =
     seq [Bol, lits (py_str_opt name @ '' says, 'Sorry to have failed you, oh Great One'')]"

definition rx_no_pet :: rx where
  "rx_no_pet = seq [Bol, lits ''You don't have a pet to command!'']"

definition rx_casting :: rx where
  "rx_casting = seq [Bol, lits ''You begin casting '', named_wts ''spell_name'', Lit CHR ''.'']"

definition rx_service :: rx where
  "rx_service = seq [Bol, named_ws ''pet_name'', lits '' says 'At your service Master'', Dot]"

definition rx_non_melee :: rx where
  "rx_non_melee =
     seq [Bol, named_wts ''target_name'', lits '' was hit by non-melee for '',
          named_d ''damage'', lits '' points of damage'']"

definition rx_beams :: "string option \<Rightarrow> rx" where
  "rx_beams name =
     seq [Bol, lits (py_str_opt name @ '' beams a smile at ''), named_wts ''target_name'']"

definition rx_melee :: "string option \<Rightarrow> rx" where
  "rx_melee name =
     seq [Bol, lits (py_str_opt name @ '' ''),
          alts [''hits'', ''slashes'', ''pierces'', ''crushes'', ''claws'', ''bites'',
                ''stings'', ''mauls'', ''gores'', ''punches''],
          Lit CHR '' '', named_wts ''target_name'', lits '' for '', named_d ''damage'',
          lits '' point'', Opt (Lit CHR ''s''), lits '' of damage'']"

definition rx_leader :: rx where
  "rx_leader =
     seq [Bol, named_wts ''pet_name'', lits '' says 'My leader is '', named_wts ''char_name'']"

definition rx_attacking :: rx where
  "rx_attacking =
     seq [Bol, named_wts ''pet_name'', lits '' tells you, 'Attacking '',
          named_wts ''target_name'', lits '' Master'']"

text \<open>The ways in which the pet can be lost.\<close>

definition pet_lost :: "PetTracker \<Rightarrow> string \<Rightarrow> PetTracker \<times> notice list" where
  "pet_lost t trunc_line =
     (case current_pet t of
        None \<Rightarrow> (t, [])
      | Some p \<Rightarrow>
          (let m1 = re_match rx_loading False trunc_line;
               m2 = re_match (rx_disperses (pet_name p)) True trunc_line;
               m3 = re_match (rx_failed (pet_name p)) True trunc_line;
               m4 = re_match rx_no_pet False trunc_line
           in if m1 \<noteq> None \<or> m2 \<noteq> None \<or> m3 \<noteq> None \<or> m4 \<noteq> None
              then (t\<lparr>current_pet := None\<rparr>,
                    [Text (''Pet '' @ py_str_opt (pet_name p) @ '' died/lost'')])
              else (t, [])))"

text \<open>A cast of one of the pet spells.\<close>

definition pet_cast :: "PetTracker \<Rightarrow> string \<Rightarrow> PetTracker \<times> notice list" where
  "pet_cast t trunc_line =
     (case re_match rx_casting False trunc_line of
        None \<Rightarrow> (t, [])
      | Some m \<Rightarrow>
          (let spell = py_str_opt (group m ''spell_name'')
           in case map_of (pet_dict t) spell of
                None \<Rightarrow> (t, [])
              | Some sp \<Rightarrow>
                  (t\<lparr>current_pet := Some (Pet_init sp)\<rparr>,
                   [Text (''*Pet being created from spell ('' @ spell @ ''), name TBD*'')])))"

text \<open>The name of a pet that has none yet.\<close>

definition pet_named :: "PetTracker \<Rightarrow> string \<Rightarrow> PetTracker \<times> notice list" where
  "pet_named t trunc_line =
     (case current_pet t of
        None \<Rightarrow> (t, [])
      | Some p \<Rightarrow>
          (if name_pending p
           then (case re_match rx_service False trunc_line of
                   None \<Rightarrow> (t, [])
                 | Some m \<Rightarrow>
                     (let p1 = p\<lparr>pet_name := group m ''pet_name'', name_pending := False\<rparr>
                      in (t\<lparr>current_pet := Some p1\<rparr>, [Text (created_report p1)])))
           else (t, [])))"

text \<open>The loop over the table that resolves a lifetap.\<close>

fun lifetap_rank :: "nat \<Rightarrow> PetStats list \<Rightarrow> Pet \<Rightarrow> Pet \<times> notice list" where
  "lifetap_rank dmg [] p = (p, [])"
| "lifetap_rank dmg (petstat # rest) p =
     (if stat_lifetap petstat = dmg \<and> pet_rank p \<noteq> stat_rank petstat
      then (let p1 = p\<lparr>pet_rank := stat_rank petstat,
                        pet_level := of_nat (stat_pet_level petstat)\<rparr>
            in case lifetap_rank dmg rest p1 of
                 (p2, notes) \<Rightarrow>
                   (p2, [Pet_report p1, Text ''*Identified via lifetap signature*''] @ notes))
      else lifetap_rank dmg rest p)"

definition pet_lifetap :: "PetTracker \<Rightarrow> string \<Rightarrow> PetTracker \<times> notice list" where
  "pet_lifetap t trunc_line =
     (case current_pet t of
        None \<Rightarrow> (t, [])
      | Some p \<Rightarrow>
          (if lifetap_pending p
           then (case re_match rx_non_melee False trunc_line of
                   None \<Rightarrow> (t, [])
                 | Some m \<Rightarrow>
                     (let dmg = py_int (py_str_opt (group m ''damage''));
                          p1 = p\<lparr>lifetap_pending := False\<rparr>
                      in case lifetap_rank dmg (pet_stats_list (pet_spell p1)) p1 of
                           (p2, notes) \<Rightarrow> (t\<lparr>current_pet := Some p2\<rparr>, notes)))
           else (t, [])))"

text \<open>The loop over the table that finds the rank of a new maximum.\<close>

fun melee_rank :: "nat \<Rightarrow> PetStats list \<Rightarrow> Pet \<Rightarrow> Pet" where
  "melee_rank damage [] p = p"
| "melee_rank damage (petstat # rest) p =
     melee_rank damage rest
       (if stat_max_melee petstat = damage
        then p\<lparr>pet_rank := stat_rank petstat, pet_level := of_nat (stat_pet_level petstat)\<rparr>
        else p)"

definition charm_level :: "nat \<Rightarrow> Pet \<Rightarrow> Pet" where
  "charm_level damage p =
     (if spell_name (pet_spell p) = ''CharmPet''
      then (if damage \<le> 60
            then p\<lparr>pet_level := of_nat damage / 2\<rparr>
            else p\<lparr>pet_level := (of_nat damage + 60) / 4\<rparr>)
      else p)"

text \<open>The scans made while there is a pet: the lifetap message and the melee damage.\<close>

definition pet_scans :: "PetTracker \<Rightarrow> string \<Rightarrow> PetTracker \<times> notice list" where
  "pet_scans t trunc_line =
     (case current_pet t of
        None \<Rightarrow> (t, [])
      | Some p \<Rightarrow>
          (let p1 = (case re_match (rx_beams (pet_name p)) True trunc_line of
                       None \<Rightarrow> p
                     | Some m \<Rightarrow> p\<lparr>lifetap_pending := True\<rparr>)
           in case re_match (rx_melee (pet_name p1)) True trunc_line of
                None \<Rightarrow> (t\<lparr>current_pet := Some p1\<rparr>, [])
              | Some m \<Rightarrow>
                  (let damage = py_int (py_str_opt (group m ''damage''))
                   in if damage > max_melee p1
                      then (let p2 = p1\<lparr>max_melee := damage\<rparr>;
                                p3 = melee_rank damage (pet_stats_list (pet_spell p2)) p2;
                                p4 = charm_level damage p3
                            in (t\<lparr>current_pet := Some p4\<rparr>,
                                [Pet_report p4, Text ''*Identified via max melee damage*'']))
                      else (t\<lparr>current_pet := Some p1\<rparr>, []))))"

text \<open>
  The two ways to reset the pet's name from inside the game. \<open>cname\<close> is
  \<open>client.elf.char_name\<close>.
\<close>

definition pet_reset :: "string \<Rightarrow> PetTracker \<Rightarrow> string \<Rightarrow> PetTracker \<times> notice list" where
  "pet_reset cname t trunc_line =
     (let (pet_name1, reset1) =
            (case re_match rx_leader False trunc_line of
               None \<Rightarrow> ([], False)
             | Some m \<Rightarrow>
                 (py_str_opt (group m ''pet_name''),
                  py_str_opt (group m ''char_name'') = cname));
          (pet_name2, reset_pet) =
            (case re_match rx_attacking False trunc_line of
               None \<Rightarrow> (pet_name1, reset1)
             | Some m \<Rightarrow>
                 (py_str_opt (group m ''pet_name''),
                  reset1 \<or> py_str_opt (group m ''pet_name'') =
                             py_str_opt (group m ''target_name'')))
      in if reset_pet
         then (case current_pet t of
                 None \<Rightarrow>
                   (case map_of (pet_dict t) ''CharmPet'' of
                      None \<Rightarrow> (t, [Text (''Pet name = '' @ pet_name2)])
                    | Some sp \<Rightarrow>
                        (let p = (Pet_init sp)\<lparr>pet_name := Some pet_name2,
                                                 name_pending := False\<rparr>
                         in (t\<lparr>current_pet := Some p\<rparr>,
                             [Text (''Pet name = '' @ pet_name2), Text (created_report p)])))
               | Some p \<Rightarrow>
                   (let p1 = p\<lparr>pet_name := Some pet_name2, name_pending := False,
                                pet_rank := 0, pet_level := 0, max_melee := 0\<rparr>
                    in (t\<lparr>current_pet := Some p1\<rparr>,
                        [Text (''Pet name = '' @ pet_name2), Pet_report p1])))
         else (t, []))"

text \<open>\<open>PetTracker.process_line\<close>: the tracker afterwards and what was sent, in order.\<close>

definition PetTracker_process_line ::
  "string \<Rightarrow> PetTracker \<Rightarrow> string \<Rightarrow> PetTracker \<times> notice list" where
  "PetTracker_process_line cname t line =
     (let trunc_line = drop 27 line;
          (t1, n1) = pet_lost t trunc_line;
          (t2, n2) = pet_cast t1 trunc_line;
          (t3, n3) = pet_named t2 trunc_line;
          (t4, n4) = pet_lifetap t3 trunc_line;
          (t5, n5) = pet_scans t4 trunc_line;
          (t6, n6) = pet_reset cname t5 trunc_line
      in (t6, n1 @ n2 @ n3 @ n4 @ n5 @ n6))"

text \<open>A sequence of lines, fed one after the other.\<close>

fun process_lines ::
  "string \<Rightarrow> PetTracker \<Rightarrow> string list \<Rightarrow> PetTracker \<times> notice list" where
  "process_lines cname t [] = (t, [])"
| "process_lines cname t (line # rest) =
     (case PetTracker_process_line cname t line of
        (t1, n1) \<Rightarrow>
          (case process_lines cname t1 rest of (t2, n2) \<Rightarrow> (t2, n1 @ n2)))"


section \<open>A host for the examples\<close>

text \<open>
  The examples below run on one instance of the library parameters: a host in the
  C locale whose local zone is UTC. Its \<open>strptime\<close> reads the fixed-width stamp that
  the game client writes, \<open>[Www Mon DD HH:MM:SS YYYY]\<close>, and rejects every other string.
  Python's \<open>strptime\<close> accepts a few more spellings (other letter case, fields of one
  digit); the two agree on every string used in the examples.
\<close>

record stamp =
  year :: nat
  month :: nat
  day :: nat
  hour :: nat
  minute :: nat
  second :: nat

definition num_of :: "string \<Rightarrow> nat option" where
  "num_of s = (if s \<noteq> [] \<and> list_all is_digit s then Some (py_int s) else None)"

definition days_in_month :: "nat \<Rightarrow> nat \<Rightarrow> nat" where
  "days_in_month y m =
     (if m = 2 then (if y mod 4 = 0 \<and> (y mod 100 \<noteq> 0 \<or> y mod 400 = 0) then 29 else 28)
      else if m \<in> set [4, 6, 9, 11] then 30 else 31)"

definition utc_strptime :: "string \<Rightarrow> stamp option" where
  "utc_strptime s =
     (if length s = 26 \<and> s ! 0 = CHR ''['' \<and> s ! 4 = CHR '' '' \<and> s ! 8 = CHR '' '' \<and>
         s ! 11 = CHR '' '' \<and> s ! 14 = CHR '':'' \<and> s ! 17 = CHR '':'' \<and>
         s ! 20 = CHR '' '' \<and> s ! 25 = CHR '']'' \<and>
         take 3 (drop 1 s) \<in> set [''Mon'', ''Tue'', ''Wed'', ''Thu'', ''Fri'', ''Sat'', ''Sun'']
      then
        (case (map_of (zip [''Jan'', ''Feb'', ''Mar'', ''Apr'', ''May'', ''Jun'', ''Jul'',
                             ''Aug'', ''Sep'', ''Oct'', ''Nov'', ''Dec'']
                            [1, 2, 3, 4, 5, 6, 7, 8, 9, 10, 11, 12]) (take 3 (drop 5 s)),
               num_of (take 2 (drop 9 s)), num_of (take 2 (drop 12 s)),
               num_of (take 2 (drop 15 s)), num_of (take 2 (drop 18 s)),
               num_of (take 4 (drop 21 s))) of
           (Some mo, Some d, Some h, Some mi, Some sec, Some y) \<Rightarrow>
             (if 1 \<le> y \<and> 1 \<le> d \<and> d \<le> days_in_month y mo \<and> h < 24 \<and> mi < 60 \<and> sec < 60
              then Some \<lparr>year = y, month = mo, day = d, hour = h, minute = mi,
                         second = sec\<rparr>
              else None)
         | _ \<Rightarrow> None)
      else None)"

definition pad :: "nat \<Rightarrow> nat \<Rightarrow> string" where
  "pad w n = replicate (w - length (str_nat n)) CHR ''0'' @ str_nat n"

definition utc_str :: "stamp \<Rightarrow> string" where
  "utc_str t =
     pad 4 (year t) @ ''-'' @ pad 2 (month t) @ ''-'' @ pad 2 (day t) @ '' '' @
     pad 2 (hour t) @ '':'' @ pad 2 (minute t) @ '':'' @ pad 2 (second t) @ ''+00:00''"

definition utc_host :: "stamp pyenv" where
  "utc_host =
     \<lparr> strptime = utc_strptime, as_local = (\<lambda>t. t), as_utc = (\<lambda>t. t), str_dt = utc_str \<rparr>"

text \<open>
  A log directory for the examples: the installation of the test driver of
  \<open>EverquestLogFile.py\<close>, with the logs of three characters.
\<close>

definition example_base :: string where
  "example_base =
     ''c:'' @ [CHR 0x5C] @ ''users'' @ [CHR 0x5C] @ ''ewjax'' @ [CHR 0x5C] @ ''Documents'' @
     [CHR 0x5C] @ ''Gaming'' @ [CHR 0x5C] @ ''Everquest-Project1999''"

definition example_logs :: string where
  "example_logs = [CHR 0x5C] @ ''logs'' @ [CHR 0x5C]"

definition example_elf :: elf where
  "example_elf = EverquestLogFile_init example_base example_logs ''P1999Green''"

definition example_fs :: fsys where
  "example_fs =
     \<lparr> glob_glob =
         (\<lambda>mask. if mask = example_base @ example_logs @ ''eqlog_*_P1999Green.txt''
                 then [build_filename example_elf ''Azleep'',
                       build_filename example_elf ''Berrma Two'',
                       build_filename example_elf ''Snoiche'']
                 else []),
       getmtime =
         (\<lambda>f. if f = build_filename example_elf ''Azleep'' then 1660000000
              else if f = build_filename example_elf ''Berrma Two'' then 1663500000
              else if f = build_filename example_elf ''Snoiche'' then 1661000000
              else 0),
       openable = (\<lambda>f. True),
       seekable = (\<lambda>f. True),
       fsize = (\<lambda>f. 4096) \<rparr>"

text \<open>The same directory when no file can be opened, and when it is empty.\<close>

definition locked_fs :: fsys where
  "locked_fs = example_fs\<lparr>openable := (\<lambda>f. False)\<rparr>"

definition empty_fs :: fsys where
  "empty_fs = example_fs\<lparr>glob_glob := (\<lambda>mask. [])\<rparr>"

section \<open>Notions used in the statements and proofs\<close>

text \<open>
  \<open>leads r ci x z\<close>: the first way in which the pattern \<open>r\<close> matches from the state
  \<open>x\<close> ends in the state \<open>z\<close>.
\<close>

definition leads :: "rx \<Rightarrow> bool \<Rightarrow> mstate \<Rightarrow> mstate \<Rightarrow> bool" where
  "leads r ci x z = (\<exists>zs. ms r ci x = z # zs)"

text \<open>
  The states that a greedy run over the characters \<open>xs\<close> can stop in, the longest run
  first: what the matcher backtracks through.
\<close>

fun backs :: "nat \<Rightarrow> string \<Rightarrow> string \<Rightarrow> groups \<Rightarrow> mstate list" where
  "backs k [] rest g = [(k, rest, g)]"
| "backs k (a # xs) rest g = backs (Suc k) xs rest g @ [(k, a # xs @ rest, g)]"

text \<open>The two lines that the game writes for a roll of the dice, after the time stamp.\<close>

definition roll_announce_line :: "string \<Rightarrow> string" where
  "roll_announce_line who = ''**A Magic Die is rolled by '' @ who @ ''.''"

definition roll_result_line :: "string \<Rightarrow> string \<Rightarrow> string \<Rightarrow> string" where
  "roll_result_line lo hi v =
     ''**It could have been any number from '' @ lo @ '' to '' @ hi @
     '', but this time it turned up a '' @ v @ ''.''"

text \<open>Two time stamps, with the blank that follows them.\<close>

definition stamp1 :: string where
  "stamp1 = ''[Sat Aug 13 15:36:21 2022] ''"

definition stamp2 :: string where
  "stamp2 = ''[Sat Aug 13 15:36:25 2022] ''"

text \<open>A line without a time stamp, and a line that is shorter than a time stamp.\<close>

definition unstamped_line :: string where
  "unstamped_line = ''This line has no timestamp GUILD MOTD: hello''"

definition short_line :: string where
  "short_line = ''Welcome to EverQuest!''"

text \<open>Lines of the log for the examples of the tracker.\<close>

definition cast_line :: string where
  "cast_line = stamp1 @ ''You begin casting Bone Walk.''"

definition none_hits_line :: string where
  "none_hits_line = stamp2 @ ''None hits a rat for 8 points of damage.''"

text \<open>Two entries of the dictionary of pet spells.\<close>

definition Bone_Walk :: PetSpell where
  "Bone_Walk =
     \<lparr>spell_name = ''Bone Walk'', eq_class = ''Necro'', caster_level = 8,
       pet_stats_list =
        [\<lparr>stat_rank = 1, stat_pet_level = 6, stat_max_melee = 8, stat_max_bashkick = 8,
           stat_max_backstab = 0, stat_lifetap = 0\<rparr>,
         \<lparr>stat_rank = 2, stat_pet_level = 7, stat_max_melee = 10, stat_max_bashkick = 10,
           stat_max_backstab = 0, stat_lifetap = 0\<rparr>,
         \<lparr>stat_rank = 3, stat_pet_level = 8, stat_max_melee = 12, stat_max_bashkick = 12,
           stat_max_backstab = 0, stat_lifetap = 0\<rparr>,
         \<lparr>stat_rank = 4, stat_pet_level = 9, stat_max_melee = 14, stat_max_bashkick = 13,
           stat_max_backstab = 0, stat_lifetap = 0\<rparr>]\<rparr>"

definition Charm_Pet :: PetSpell where
  "Charm_Pet =
     \<lparr>spell_name = ''CharmPet'', eq_class = ''UnknownClass'', caster_level = 0,
       pet_stats_list =
        [\<lparr>stat_rank = 0, stat_pet_level = 0, stat_max_melee = 0, stat_max_bashkick = 0,
           stat_max_backstab = 0, stat_lifetap = 0\<rparr>]\<rparr>"

text \<open>\<open>s.split(c, n)\<close> for a separator of one character: at most \<open>n\<close> splits, from the left.\<close>

fun split_max :: "nat \<Rightarrow> char \<Rightarrow> string \<Rightarrow> string list" where
  "split_max 0 c s = [s]"
| "split_max (Suc n) c [] = [[]]"
| "split_max (Suc n) c (x # xs) =
     (if x = c then [] # split_max n c xs
      else (x # hd (split_max (Suc n) c xs)) # tl (split_max (Suc n) c xs))"

text \<open>
  Modelled from the spec: the collector that reads the records is not part of the
  repository. The spec fixes the order of the six fields and the delimiter, and the raw
  line is the last field. Parsing a record by the field positions is
  \<open>s.split('|', 5)\<close>: the first five fields end at the first five delimiters and the
  sixth field is the rest of the record. The result is the tuple of the fields at the
  positions 1 to 5 (position 0 is the marker): character name, detector id,
  description, UTC time stamp, raw line; \<open>None\<close> for a record of fewer than six fields.
\<close>

definition parse_report :: "string \<Rightarrow> (string \<times> string \<times> string \<times> string \<times> string) option" where
  "parse_report s =
     (let fields = split_max 5 CHR ''|'' s
      in if length fields = 6
         then Some (fields ! 1, fields ! 2, fields ! 3, fields ! 4, fields ! 5)
         else None)"

text \<open>A guild message of the day that holds the separator.\<close>

definition motd_line :: string where
  "motd_line = stamp1 @ ''GUILD MOTD: raid at 8 | bring potions''"

text \<open>
  A melee line of the pet called \<open>name\<close> that reports the damage \<open>d\<close>: the melee
  pattern of the tracker matches the line with the damage \<open>d\<close>, and no other pattern of
  the tracker matches it (the line is not also a loss, a cast, a naming, a lifetap or a
  reset).
\<close>

definition melee_line :: "string option \<Rightarrow> string \<Rightarrow> nat \<Rightarrow> bool" where
  "melee_line name line d =
     (let trunc_line = drop 27 line
      in (case re_match (rx_melee name) True trunc_line of
            None \<Rightarrow> False
          | Some m \<Rightarrow> py_int (py_str_opt (group m ''damage'')) = d) \<and>
         re_match rx_loading False trunc_line = None \<and>
         re_match (rx_disperses name) True trunc_line = None \<and>
         re_match (rx_failed name) True trunc_line = None \<and>
         re_match rx_no_pet False trunc_line = None \<and>
         re_match rx_casting False trunc_line = None \<and>
         re_match rx_service False trunc_line = None \<and>
         re_match rx_non_melee False trunc_line = None \<and>
         re_match (rx_beams name) True trunc_line = None \<and>
         re_match rx_leader False trunc_line = None \<and>
         re_match rx_attacking False trunc_line = None)"

text \<open>
  The pet after a new maximum \<open>d\<close> of its melee damage: the three assignments of the
  branch \<open>damage > max_melee\<close>, in the order of the source.
\<close>

definition new_max :: "Pet \<Rightarrow> nat \<Rightarrow> Pet" where
  "new_max p d =
     charm_level d (melee_rank d (pet_stats_list (pet_spell p)) (p\<lparr>max_melee := d\<rparr>))"

text \<open>Two pets with a name, and lines of the log for them.\<close>

definition boney :: Pet where
  "boney = (Pet_init Bone_Walk)\<lparr>pet_name := Some ''Boney'', name_pending := False\<rparr>"

definition boney_line :: string where
  "boney_line = stamp2 @ ''Boney hits a rat for 12 points of damage.''"

definition fluffy :: Pet where
  "fluffy = (Pet_init Charm_Pet)\<lparr>pet_name := Some ''Fluffy'', name_pending := False\<rparr>"

definition fluffy_line :: string where
  "fluffy_line = stamp2 @ ''Fluffy bites a rat for 62 points of damage.''"

text \<open>The mask that \<open>open_latest\<close> hands to \<open>glob.glob\<close>.\<close>

definition log_mask :: "elf \<Rightarrow> string" where
  "log_mask e = base_directory e @ logs_directory e @ ''eqlog_*_'' @ server_name e @ ''.txt''"

text \<open>
  The tailer of the example after it has opened the log of the character whose file is
  the latest, at the end of the file.
\<close>

definition example_elf_open :: elf where
  "example_elf_open =
     example_elf
       \<lparr>char_name := ''Berrma Two'',
        filename := build_filename example_elf ''Berrma Two'',
        elf_file := Some \<lparr>path = build_filename example_elf ''Berrma Two'', position = 4096,
                           closed = False\<rparr>,
        parsing := True\<rparr>"


section \<open>Opening a file that cannot be opened\<close>

text \<open>
  C9. When \<open>open\<close> raises an OS error for the file, the method \<open>open\<close> of the tailer
  returns \<open>False\<close> and leaves the tailer as it was: the character name, the file
  name, the stored handle and the parsing flag keep their values; the only call made
  is the failed \<open>open\<close>.
\<close>

theorem open_failure_keeps_tailer:
  assumes "\<not> openable fs fname"
  shows "elf_open fs e charname fname seek_end = (False, e, [Op_open fname]) \<and>
         fst (elf_open fs e charname fname seek_end) = False \<and>
         char_name (fst (snd (elf_open fs e charname fname seek_end))) = char_name e \<and>
         filename (fst (snd (elf_open fs e charname fname seek_end))) = filename e \<and>
         elf_file (fst (snd (elf_open fs e charname fname seek_end))) = elf_file e \<and>
         parsing (fst (snd (elf_open fs e charname fname seek_end))) = parsing e"
  using assms by (simp add: elf_open_def)

theorem open_failure_keeps_tailer_witness:
  "\<not> openable locked_fs (build_filename example_elf ''Azleep'') \<and>
   elf_open locked_fs example_elf ''Azleep'' (build_filename example_elf ''Azleep'') True =
     (False, example_elf, [Op_open (build_filename example_elf ''Azleep'')]) \<and>
   parsing (fst (snd (elf_open locked_fs example_elf ''Azleep''
     (build_filename example_elf ''Azleep'') True))) = False"
proof -
  have h: "\<not> openable locked_fs (build_filename example_elf ''Azleep'')"
    by (simp add: locked_fs_def)
  have p: "parsing example_elf = False"
    by (simp add: example_elf_def EverquestLogFile_init_def Let_def)
  from open_failure_keeps_tailer [OF h, of example_elf "''Azleep''" True] h p
  show ?thesis by simp
qed


section \<open>The matcher on greedy runs\<close>

lemma leads_Cat: "leads r1 ci x y \<Longrightarrow> leads r2 ci y z \<Longrightarrow> leads (Cat r1 r2) ci x z"
  by (auto simp: leads_def)

lemma leads_Eps: "leads Eps ci x x"
  by (simp add: leads_def)

lemma leads_Bol: "leads Bol ci (0, s, g) (0, s, g)"
  by (simp add: leads_def)

lemma leads_Lit: "leads (Lit c) False (k, c # s, g) (Suc k, s, g)"
  by (simp add: leads_def)

lemma ms_lits: "ms (lits s) False (k, s @ rest, g) = [(k + length s, rest, g)]"
  by (induction s arbitrary: k) (simp_all add: lits_def)

lemma leads_lits: "leads (lits s) False (k, s @ rest, g) (k + length s, rest, g)"
  by (simp add: leads_def ms_lits)

lemma re_match_leads: "leads r ci (0, s, []) (k, rest, g) \<Longrightarrow> re_match r ci s = Some g"
  by (auto simp: leads_def re_match_def)

lemma iter_class:
  assumes "list_all P xs" "rest = [] \<or> \<not> P (hd rest)" "length xs \<le> n"
  shows "iter n (step_char P) (k, xs @ rest, g) = backs k xs rest g"
  using assms
proof (induction xs arbitrary: n k)
  case Nil
  have "step_char P (k, rest, g) = []"
    using Nil(2) by (cases rest) auto
  then show ?case by (cases n) simp_all
next
  case (Cons a xs)
  then obtain m where n: "n = Suc m" and m: "length xs \<le> m"
    by (cases n) auto
  have IH: "iter m (step_char P) (Suc k, xs @ rest, g) = backs (Suc k) xs rest g"
    using Cons.IH [of m "Suc k"] Cons.prems m by simp
  have Pa: "P a" using Cons.prems by simp
  show ?case
    unfolding n using Pa IH by simp
qed

lemma ms_Star_class:
  assumes "list_all (in_class ci its) xs" "rest = [] \<or> \<not> in_class ci its (hd rest)"
  shows "ms (Star (Cls its)) ci (k, xs @ rest, g) = backs k xs rest g"
proof -
  have "ms (Cls its) ci = step_char (in_class ci its)"
    by (rule ext) simp
  then show ?thesis
    using iter_class [OF assms, of "length (xs @ rest)" k g] by simp
qed

lemma ms_Plus_class:
  assumes "in_class ci its a" "list_all (in_class ci its) xs"
    "rest = [] \<or> \<not> in_class ci its (hd rest)"
  shows "ms (Plus (Cls its)) ci (k, a # xs @ rest, g) = backs (Suc k) xs rest g"
  using assms ms_Star_class [OF assms(2,3), of "Suc k" g] by (simp add: Plus_def)

lemma backs_hd: "\<exists>ys. backs k xs rest g = (k + length xs, rest, g) # ys"
proof (induction xs arbitrary: k)
  case Nil then show ?case by simp
next
  case (Cons a xs)
  from Cons [of "Suc k"] obtain ys where "backs (Suc k) xs rest g = (Suc k + length xs, rest, g) # ys"
    by blast
  then show ?case by simp
qed

lemma backs_last: "\<exists>ys. backs k xs rest g = ys @ [(k, xs @ rest, g)]"
  by (cases xs) auto

lemma backs_rem_le: "y \<in> set (backs k xs rest g) \<Longrightarrow> length (fst (snd y)) \<le> length (xs @ rest)"
  by (induction xs arbitrary: k) fastforce+

lemma backs_fst: "y \<in> set (backs k xs rest g) \<Longrightarrow>
    \<exists>i \<le> length xs. y = (k + i, drop i xs @ rest, g)"
proof (induction xs arbitrary: k)
  case Nil then show ?case by simp
next
  case (Cons a xs)
  show ?case
  proof (cases "y = (k, a # xs @ rest, g)")
    case True then show ?thesis by (intro exI [of _ 0]) simp
  next
    case False
    with Cons.prems have "y \<in> set (backs (Suc k) xs rest g)" by simp
    from Cons.IH [OF this] obtain i where "i \<le> length xs" "y = (Suc k + i, drop i xs @ rest, g)"
      by blast
    then show ?thesis by (intro exI [of _ "Suc i"]) simp
  qed
qed

lemma backs_append:
  "backs k (xs @ ys) rest g = butlast (backs (k + length xs) ys rest g) @ backs k xs (ys @ rest) g"
proof (induction xs arbitrary: k)
  case Nil
  obtain zs where "backs k ys rest g = zs @ [(k, ys @ rest, g)]"
    using backs_last by blast
  then show ?case by simp
next
  case (Cons a xs)
  then show ?case by simp
qed

lemma backs_butlast_rem:
  "y \<in> set (butlast (backs k xs rest g)) \<Longrightarrow> length (fst (snd y)) < length (xs @ rest)"
proof (cases xs)
  case Nil
  assume "y \<in> set (butlast (backs k xs rest g))"
  with Nil show ?thesis by simp
next
  case (Cons a as)
  assume "y \<in> set (butlast (backs k xs rest g))"
  with Cons have "y \<in> set (backs (Suc k) as rest g)" by simp
  from backs_rem_le [OF this] Cons show ?thesis by simp
qed

lemma of_char_digit: "(48 \<le> (of_char a :: nat) \<and> (of_char a :: nat) \<le> 57) = is_digit a"
proof
  assume "48 \<le> (of_char a :: nat) \<and> (of_char a :: nat) \<le> 57"
  then have "(of_char a :: nat) \<in> {48, 49, 50, 51, 52, 53, 54, 55, 56, 57}"
    by (simp only: insert_iff empty_iff) arith
  then have "(of_char a :: nat) \<in> of_char ` set ''0123456789''" by simp
  then obtain b where b: "b \<in> set ''0123456789''" and "(of_char a :: nat) = of_char b"
    by (rule imageE)
  then have "a = b" by (simp only: of_char_eq_iff)
  with b show "is_digit a" by (simp only: is_digit_def)
next
  assume "is_digit a"
  then show "48 \<le> (of_char a :: nat) \<and> (of_char a :: nat) \<le> 57"
    by (auto simp: is_digit_def)
qed

lemma in_class_09: "in_class ci [Rng CHR ''0'' CHR ''9''] a = is_digit a"
  using of_char_digit [of a] by (simp add: in_class_def item_ok_def)

lemma in_class_ws: "in_class False [W, Ch CHR '' ''] a = (is_word a \<or> a = CHR '' '')"
  by (simp add: in_class_def item_ok_def)

lemma leads_Grp_Plus:
  assumes "xs \<noteq> []" "list_all (in_class ci its) xs"
    "rest = [] \<or> \<not> in_class ci its (hd rest)"
  shows "leads (Grp n (Plus (Cls its))) ci (k, xs @ rest, g) (k + length xs, rest, (n, xs) # g)"
proof -
  from assms(1) obtain a as where xs: "xs = a # as" by (cases xs) auto
  with assms have a: "in_class ci its a" and as: "list_all (in_class ci its) as" by simp_all
  have "ms (Plus (Cls its)) ci (k, a # as @ rest, g) = backs (Suc k) as rest g"
    by (rule ms_Plus_class [OF a as assms(3)])
  moreover obtain ys where "backs (Suc k) as rest g = (Suc k + length as, rest, g) # ys"
    using backs_hd by blast
  ultimately show ?thesis
    by (simp add: leads_def xs capture_def)
qed

lemma leads_named_09:
  assumes "ds \<noteq> []" "list_all is_digit ds" "rest = [] \<or> \<not> is_digit (hd rest)"
  shows "leads (named_09 n) False (k, ds @ rest, g) (k + length ds, rest, (n, ds) # g)"
  unfolding named_09_def
  by (rule leads_Grp_Plus) (use assms in \<open>simp_all add: in_class_09 [abs_def]\<close>)

lemma leads_named_ws:
  assumes "xs \<noteq> []" "list_all (\<lambda>a. is_word a \<or> a = CHR '' '') xs"
    "rest = [] \<or> \<not> (is_word (hd rest) \<or> hd rest = CHR '' '')"
  shows "leads (named_ws n) False (k, xs @ rest, g) (k + length xs, rest, (n, xs) # g)"
  unfolding named_ws_def
  by (rule leads_Grp_Plus) (use assms in \<open>simp_all add: in_class_ws [abs_def]\<close>)

lemma group_names_lits [simp]: "group_names (lits s) = []"
  by (induction s) (simp_all add: lits_def)

lemma leads_seq_Cons: "leads r ci x y \<Longrightarrow> leads (seq rs) ci y z \<Longrightarrow> leads (seq (r # rs)) ci x z"
  by (simp add: seq_def leads_Cat)

lemma leads_seq_Nil: "leads (seq []) ci x x"
  by (simp add: seq_def leads_Eps)

lemma not_digit_simps [simp]: "\<not> is_digit CHR '' ''" "\<not> is_digit CHR '',''" "\<not> is_digit CHR ''.''"
  by (simp_all add: is_digit_def)

lemma result_pattern_match:
  assumes L: "lo \<noteq> []" "list_all is_digit lo"
      and H: "hi \<noteq> []" "list_all is_digit hi"
      and V: "v \<noteq> []" "list_all is_digit v"
  shows "re_match (seq [lits ''**It could have been any number from '', named_09 ''low'',
                lits '' to '', named_09 ''high'',
                lits '', but this time it turned up a '', named_09 ''value'',
                Lit CHR ''.'']) False (roll_result_line lo hi v @ t) =
         Some [(''value'', v), (''high'', hi), (''low'', lo)]"
proof -
  let ?r = "seq [lits ''**It could have been any number from '', named_09 ''low'',
                lits '' to '', named_09 ''high'',
                lits '', but this time it turned up a '', named_09 ''value'',
                Lit CHR ''.'']"
  have "\<exists>k. leads ?r False
          (0, ''**It could have been any number from '' @ (lo @ ('' to '' @ (hi @
              ('', but this time it turned up a '' @ (v @ (CHR ''.'' # t)))))), [])
          (k, t, [(''value'', v), (''high'', hi), (''low'', lo)])"
    apply (rule exI)
    apply (rule leads_seq_Cons, rule leads_lits)
    apply (rule leads_seq_Cons, rule leads_named_09 [OF L], simp)
    apply (rule leads_seq_Cons, rule leads_lits)
    apply (rule leads_seq_Cons, rule leads_named_09 [OF H], simp)
    apply (rule leads_seq_Cons, rule leads_lits)
    apply (rule leads_seq_Cons, rule leads_named_09 [OF V], simp)
    apply (rule leads_seq_Cons, rule leads_Lit)
    apply (rule leads_seq_Nil)
    done
  then obtain k where "leads ?r False (0, roll_result_line lo hi v @ t, [])
          (k, t, [(''value'', v), (''high'', hi), (''low'', lo)])"
    by (auto simp: roll_result_line_def)
  from re_match_leads [OF this] show ?thesis .
qed


section \<open>The two lines of a roll\<close>

lemma not_ws_dot [simp]: "\<not> is_word CHR ''.''"
  by (simp add: is_word_def)

lemma announce_pattern_match:
  assumes "who \<noteq> []" "list_all (\<lambda>a. is_word a \<or> a = CHR '' '') who"
  shows "re_match (seq [lits ''**A Magic Die is rolled by '', named_ws ''playername'',
                Lit CHR ''.'']) False (roll_announce_line who @ t) =
         Some [(''playername'', who)]"
proof -
  let ?r = "seq [lits ''**A Magic Die is rolled by '', named_ws ''playername'', Lit CHR ''.'']"
  have "\<exists>k. leads ?r False
          (0, ''**A Magic Die is rolled by '' @ (who @ (CHR ''.'' # t)), [])
          (k, t, [(''playername'', who)])"
    apply (rule exI)
    apply (rule leads_seq_Cons, rule leads_lits)
    apply (rule leads_seq_Cons, rule leads_named_ws [OF assms], simp)
    apply (rule leads_seq_Cons, rule leads_Lit)
    apply (rule leads_seq_Nil)
    done
  then obtain k where "leads ?r False (0, roll_announce_line who @ t, [])
          (k, t, [(''playername'', who)])"
    by (auto simp: roll_announce_line_def)
  from re_match_leads [OF this] show ?thesis .
qed

lemma ms_lits_Cons:
  "ms (lits (c # s)) False (k, u, g) =
     (case u of [] \<Rightarrow> [] | a # as \<Rightarrow> if a = c then ms (lits s) False (Suc k, as, g) else [])"
  by (cases u) (simp_all add: lits_def)

lemma ms_seq_Cons: "ms (seq (r # rs)) ci x = concat (map (ms (seq rs) ci) (ms r ci x))"
  by (simp add: seq_def)

lemma announce_line_no_result:
  "re_match (seq [lits ''**It could have been any number from '', named_09 ''low'',
                lits '' to '', named_09 ''high'',
                lits '', but this time it turned up a '', named_09 ''value'',
                Lit CHR ''.'']) False (roll_announce_line who @ t) = None"
  by (simp add: re_match_def ms_seq_Cons ms_lits_Cons roll_announce_line_def)

lemma result_line_no_announce:
  "re_match (seq [lits ''**A Magic Die is rolled by '', named_ws ''playername'',
                Lit CHR ''.'']) False (roll_result_line lo hi v @ t) = None"
  by (simp add: re_match_def ms_seq_Cons ms_lits_Cons roll_result_line_def)

lemma search_list_Random:
  "search_list Random_Parser =
     [(seq [lits ''**A Magic Die is rolled by '', named_ws ''playername'',
                Lit CHR ''.''], False),
          (seq [lits ''**It could have been any number from '', named_09 ''low'',
                lits '' to '', named_09 ''high'',
                lits '', but this time it turned up a '', named_09 ''value'',
                Lit CHR ''.''], False)]"
  by (simp add: Random_Parser_def)

lemma group_names_seq [simp]: "group_names (seq rs) = concat (map group_names rs)"
  by (induction rs) (simp_all add: seq_def)

lemma group_names_named [simp]:
  "group_names (named_ws n) = [n]" "group_names (named_09 n) = [n]"
  by (simp_all add: named_ws_def named_09_def Plus_def)

lemma matches_roll_announce:
  assumes d: "hook d = Random_hook" "search_list (d :: 'dt parse_target) = search_list (Random_Parser :: 'dt parse_target)"
      and p: "length p = 27"
      and who: "who \<noteq> []" "list_all (\<lambda>a. is_word a \<or> a = CHR '' '') who"
  shows "matches env d (p @ roll_announce_line who @ t) = Inr (False, d\<lparr>playername := Some who\<rparr>)"
  using d p
  by (simp add: matches_def search_list_Random announce_pattern_match [OF who]
      announce_line_no_result custom_match_hook_def group_def)

lemma matches_roll_result:
  assumes d: "hook d = Random_hook" "search_list (d :: 'dt parse_target) = search_list (Random_Parser :: 'dt parse_target)"
      and p: "length p = 27" "strptime env (take 26 p) = Some dt"
      and L: "lo \<noteq> []" "list_all is_digit lo"
      and H: "hi \<noteq> []" "list_all is_digit hi"
      and V: "v \<noteq> []" "list_all is_digit v"
  shows "matches env d (p @ roll_result_line lo hi v @ t) =
         Inr (True, d\<lparr>short_description :=
                   ''Random roll: '' @ py_str_opt (playername d) @ '', '' @ lo @ ''-'' @ hi @
                   '', Value='' @ v,
                 playername := None,
                 matching_line := Some (p @ roll_result_line lo hi v @ t),
                 local_datetime := Some (as_local env dt),
                 utc_datetime := Some (as_utc env (as_local env dt))\<rparr>)"
  using d p
  by (simp add: matches_def search_list_Random result_pattern_match [OF L H V]
      result_line_no_announce custom_match_hook_def group_def set_timestamps_def
      py_str_opt_def Let_def)

lemma stamp2_parses:
  "strptime utc_host (take 26 stamp2) =
     Some \<lparr>year = 2022, month = 8, day = 13, hour = 15, minute = 36, second = 25\<rparr>"
  by (simp add: utc_host_def stamp2_def utc_strptime_def num_of_def is_digit_def py_int_def
      digit_val_def days_in_month_def)

lemma utc_str_example:
  "utc_str \<lparr>year = 2022, month = 8, day = 13, hour = 15, minute = 36, second = 25\<rparr> =
     ''2022-08-13 15:36:25+00:00''"
  by (simp add: utc_str_def pad_def str_nat.simps)

text \<open>
  C1. Two-line roll correlation. Take two lines with a time stamp of 27 characters each,
  the first with the remainder \<open>**A Magic Die is rolled by Bob.\<close>, the second with the
  remainder \<open>**It could have been any number from 1 to 100, but this time it turned up
  a 42.\<close> and a stamp that parses (text may follow either remainder). On the first
  line \<open>matches\<close> of the Random detector returns \<open>False\<close>, caches the name and the
  dispatch loop emits nothing. On the second line it returns \<open>True\<close>, the description is
  \<open>Random roll: Bob, 1-100, Value=42\<close>, the cached name is cleared, and the loop emits
  exactly one report, which contains that description.
\<close>

theorem two_line_roll:
  assumes "hook d = Random_hook" and "search_list (d :: 'dt parse_target) = search_list (Random_Parser :: 'dt parse_target)"
    and "length p1 = 27" and "length p2 = 27" and "strptime env (take 26 p2) = Some dt"
  shows "matches env d (p1 @ roll_announce_line ''Bob'' @ t1) =
           Inr (False, d\<lparr>playername := Some ''Bob''\<rparr>) \<and>
         ParseTargetParser_process_line env [d] (p1 @ roll_announce_line ''Bob'' @ t1) =
           Inr ([d\<lparr>playername := Some ''Bob''\<rparr>], []) \<and>
         matches env (d\<lparr>playername := Some ''Bob''\<rparr>)
             (p2 @ roll_result_line ''1'' ''100'' ''42'' @ t2) =
           Inr (True, d\<lparr>short_description := ''Random roll: Bob, 1-100, Value=42'',
                        playername := None,
                        matching_line := Some (p2 @ roll_result_line ''1'' ''100'' ''42'' @ t2),
                        local_datetime := Some (as_local env dt),
                        utc_datetime := Some (as_utc env (as_local env dt))\<rparr>) \<and>
         ParseTargetParser_process_line env [d\<lparr>playername := Some ''Bob''\<rparr>]
             (p2 @ roll_result_line ''1'' ''100'' ''42'' @ t2) =
           Inr ([d\<lparr>short_description := ''Random roll: Bob, 1-100, Value=42'',
                    playername := None,
                    matching_line := Some (p2 @ roll_result_line ''1'' ''100'' ''42'' @ t2),
                    local_datetime := Some (as_local env dt),
                    utc_datetime := Some (as_utc env (as_local env dt))\<rparr>],
                [eqmarker d @ field_separator d @ parsing_player d @ field_separator d @
                 str_nat (parse_target_ID d) @ field_separator d @
                 ''Random roll: '' @ ''Bob, 1-100, Value=42'' @ field_separator d @
                 str_dt env (as_utc env (as_local env dt)) @ field_separator d @
                 p2 @ roll_result_line ''1'' ''100'' ''42'' @ t2])"
proof -
  have bob: "''Bob'' \<noteq> []" "list_all (\<lambda>a. is_word a \<or> a = CHR '' '') ''Bob''"
    by (simp_all add: is_word_def)
  have dig: "''1'' \<noteq> []" "list_all is_digit ''1''" "''100'' \<noteq> []" "list_all is_digit ''100''"
    "''42'' \<noteq> []" "list_all is_digit ''42''"
    by (simp_all add: is_digit_def)
  have a: "matches env d (p1 @ roll_announce_line ''Bob'' @ t1) =
           Inr (False, d\<lparr>playername := Some ''Bob''\<rparr>)"
    by (rule matches_roll_announce [OF assms(1,2,3) bob])
  have b: "matches env (d\<lparr>playername := Some ''Bob''\<rparr>)
             (p2 @ roll_result_line ''1'' ''100'' ''42'' @ t2) =
           Inr (True, d\<lparr>short_description := ''Random roll: Bob, 1-100, Value=42'',
                        playername := None,
                        matching_line := Some (p2 @ roll_result_line ''1'' ''100'' ''42'' @ t2),
                        local_datetime := Some (as_local env dt),
                        utc_datetime := Some (as_utc env (as_local env dt))\<rparr>)"
    using matches_roll_result [of "d\<lparr>playername := Some ''Bob''\<rparr>" p2 env dt
        "''1''" "''100''" "''42''" t2] assms dig
    by (simp add: py_str_opt_def)
  show ?thesis
    by (simp add: a b report_def py_str_opt_def)
qed

theorem two_line_roll_witness:
  "hook (Random_Parser :: stamp parse_target) = Random_hook \<and>
   length stamp1 = 27 \<and> length stamp2 = 27 \<and>
   strptime utc_host (take 26 stamp2) =
     Some \<lparr>year = 2022, month = 8, day = 13, hour = 15, minute = 36, second = 25\<rparr> \<and>
   matches utc_host Random_Parser (stamp1 @ roll_announce_line ''Bob'') =
     Inr (False, Random_Parser\<lparr>playername := Some ''Bob''\<rparr>) \<and>
   ParseTargetParser_process_line utc_host [Random_Parser\<lparr>playername := Some ''Bob''\<rparr>]
       (stamp2 @ roll_result_line ''1'' ''100'' ''42'') =
     Inr ([Random_Parser\<lparr>short_description := ''Random roll: Bob, 1-100, Value=42'',
              playername := None,
              matching_line := Some (stamp2 @ roll_result_line ''1'' ''100'' ''42''),
              local_datetime :=
                Some \<lparr>year = 2022, month = 8, day = 13, hour = 15, minute = 36, second = 25\<rparr>,
              utc_datetime :=
                Some \<lparr>year = 2022, month = 8, day = 13, hour = 15, minute = 36, second = 25\<rparr>\<rparr>],
          [''EQ__|Unknown|10|Random roll: Bob, 1-100, Value=42|2022-08-13 15:36:25+00:00|'' @
           stamp2 @ roll_result_line ''1'' ''100'' ''42''])"
proof -
  have h: "hook (Random_Parser :: stamp parse_target) = Random_hook"
    by (simp add: Random_Parser_def)
  have l1: "length stamp1 = 27" and l2: "length stamp2 = 27"
    by (simp_all add: stamp1_def stamp2_def)
  have f: "eqmarker (Random_Parser :: stamp parse_target) = ''EQ__''"
    "field_separator (Random_Parser :: stamp parse_target) = ''|''"
    "parsing_player (Random_Parser :: stamp parse_target) = ''Unknown''"
    "str_nat (parse_target_ID (Random_Parser :: stamp parse_target)) = ''10''"
    by (simp_all add: Random_Parser_def ParseTarget_init_def str_nat.simps)
  have u: "as_local utc_host = (\<lambda>t. t)" "as_utc utc_host = (\<lambda>t. t)" "str_dt utc_host = utc_str"
    by (simp_all add: utc_host_def)
  from two_line_roll [OF h refl l1 l2 stamp2_parses, of "[]" "[]"] h l1 l2 stamp2_parses
  show ?thesis
    by (simp add: f u utc_str_example del: ParseTargetParser_process_line.simps)
qed

text \<open>
  C10. A result line \<open>**It could have been any number from L to H, but this time it
  turned up a V.\<close> that arrives while no announcer is cached is still accepted by the
  Random detector: \<open>matches\<close> returns \<open>True\<close> and the report that the loop emits
  carries the description \<open>Random roll: None, L-H, Value=V\<close>.
\<close>

theorem roll_result_without_announcer:
  assumes "hook d = Random_hook"
    and "search_list (d :: 'dt parse_target) = search_list (Random_Parser :: 'dt parse_target)"
    and "playername d = None"
    and "length p = 27" and "strptime env (take 26 p) = Some dt"
    and "lo \<noteq> []" and "list_all is_digit lo"
    and "hi \<noteq> []" and "list_all is_digit hi"
    and "v \<noteq> []" and "list_all is_digit v"
  shows "matches env d (p @ roll_result_line lo hi v @ t) =
           Inr (True, d\<lparr>short_description :=
                          ''Random roll: None, '' @ lo @ ''-'' @ hi @ '', Value='' @ v,
                        playername := None,
                        matching_line := Some (p @ roll_result_line lo hi v @ t),
                        local_datetime := Some (as_local env dt),
                        utc_datetime := Some (as_utc env (as_local env dt))\<rparr>) \<and>
         ParseTargetParser_process_line env [d] (p @ roll_result_line lo hi v @ t) =
           Inr ([d\<lparr>short_description :=
                      ''Random roll: None, '' @ lo @ ''-'' @ hi @ '', Value='' @ v,
                    playername := None,
                    matching_line := Some (p @ roll_result_line lo hi v @ t),
                    local_datetime := Some (as_local env dt),
                    utc_datetime := Some (as_utc env (as_local env dt))\<rparr>],
                [eqmarker d @ field_separator d @ parsing_player d @ field_separator d @
                 str_nat (parse_target_ID d) @ field_separator d @
                 ''Random roll: None, '' @ lo @ ''-'' @ hi @ '', Value='' @ v @
                 field_separator d @
                 str_dt env (as_utc env (as_local env dt)) @ field_separator d @
                 p @ roll_result_line lo hi v @ t])"
proof -
  have m: "matches env d (p @ roll_result_line lo hi v @ t) =
           Inr (True, d\<lparr>short_description :=
                          ''Random roll: None, '' @ lo @ ''-'' @ hi @ '', Value='' @ v,
                        playername := None,
                        matching_line := Some (p @ roll_result_line lo hi v @ t),
                        local_datetime := Some (as_local env dt),
                        utc_datetime := Some (as_utc env (as_local env dt))\<rparr>)"
    using matches_roll_result [OF assms(1,2,4,5,6,7,8,9,10,11), of t] assms(3)
    by (simp add: py_str_opt_def)
  show ?thesis
    by (simp add: m report_def py_str_opt_def)
qed

theorem roll_result_without_announcer_witness:
  "hook (Random_Parser :: stamp parse_target) = Random_hook \<and>
   playername (Random_Parser :: stamp parse_target) = None \<and>
   length stamp2 = 27 \<and>
   strptime utc_host (take 26 stamp2) =
     Some \<lparr>year = 2022, month = 8, day = 13, hour = 15, minute = 36, second = 25\<rparr> \<and>
   list_all is_digit ''0'' \<and> list_all is_digit ''999'' \<and> list_all is_digit ''512'' \<and>
   ParseTargetParser_process_line utc_host [Random_Parser]
       (stamp2 @ roll_result_line ''0'' ''999'' ''512'') =
     Inr ([Random_Parser\<lparr>short_description := ''Random roll: None, 0-999, Value=512'',
              playername := None,
              matching_line := Some (stamp2 @ roll_result_line ''0'' ''999'' ''512''),
              local_datetime :=
                Some \<lparr>year = 2022, month = 8, day = 13, hour = 15, minute = 36, second = 25\<rparr>,
              utc_datetime :=
                Some \<lparr>year = 2022, month = 8, day = 13, hour = 15, minute = 36, second = 25\<rparr>\<rparr>],
          [''EQ__|Unknown|10|Random roll: None, 0-999, Value=512|2022-08-13 15:36:25+00:00|'' @
           stamp2 @ roll_result_line ''0'' ''999'' ''512''])"
proof -
  have h: "hook (Random_Parser :: stamp parse_target) = Random_hook"
    and n: "playername (Random_Parser :: stamp parse_target) = None"
    by (simp_all add: Random_Parser_def ParseTarget_init_def)
  have l2: "length stamp2 = 27"
    by (simp add: stamp2_def)
  have dig: "list_all is_digit ''0''" "list_all is_digit ''999''" "list_all is_digit ''512''"
    by (simp_all add: is_digit_def)
  have f: "eqmarker (Random_Parser :: stamp parse_target) = ''EQ__''"
    "field_separator (Random_Parser :: stamp parse_target) = ''|''"
    "parsing_player (Random_Parser :: stamp parse_target) = ''Unknown''"
    "str_nat (parse_target_ID (Random_Parser :: stamp parse_target)) = ''10''"
    by (simp_all add: Random_Parser_def ParseTarget_init_def str_nat.simps)
  have u: "as_local utc_host = (\<lambda>t. t)" "as_utc utc_host = (\<lambda>t. t)" "str_dt utc_host = utc_str"
    by (simp_all add: utc_host_def)
  from roll_result_without_announcer [OF h refl n l2 stamp2_parses _ dig(1) _ dig(2) _ dig(3),
      of "[]"] h n l2 stamp2_parses dig
  show ?thesis
    by (simp add: f u utc_str_example del: ParseTargetParser_process_line.simps)
qed


section \<open>Lines whose time stamp does not parse\<close>

lemma set_timestamps_unparsed:
  "strptime env (take 26 line) = None \<Longrightarrow>
   set_timestamps env d line = Inl (ValueError ''time data does not match format'')"
  by (simp add: set_timestamps_def)

lemma matches_loop_unparsed:
  assumes "strptime env (take 26 line) = None"
  shows "matches_loop env line trunc ts (False, d) = Inr (rv, d') \<Longrightarrow> \<not> rv"
proof (induction ts arbitrary: d)
  case Nil
  then show ?case by simp
next
  case (Cons t ts)
  show ?case
  proof (cases "re_match (fst t) (snd t) trunc")
    case None
    with Cons show ?thesis by simp
  next
    case (Some m)
    obtain b d1 where h: "custom_match_hook d (fst t) m line = (b, d1)"
      by (cases "custom_match_hook d (fst t) m line")
    show ?thesis
    proof (cases b)
      case True
      with Cons.prems Some h set_timestamps_unparsed [OF assms, of d1]
      show ?thesis by simp
    next
      case False
      with Cons.prems Some h have "matches_loop env line trunc ts (False, d1) = Inr (rv, d')"
        by simp
      then show ?thesis by (rule Cons.IH)
    qed
  qed
qed

lemma matches_loop_error:
  "matches_loop env line trunc ts acc = Inl e \<Longrightarrow>
   e = ValueError ''time data does not match format''"
proof (induction ts arbitrary: acc)
  case Nil
  then show ?case by simp
next
  case (Cons t ts)
  obtain rv d where acc: "acc = (rv, d)" by (cases acc)
  show ?case
  proof (cases "re_match (fst t) (snd t) trunc")
    case None
    with Cons acc show ?thesis by simp
  next
    case (Some m)
    obtain b d1 where h: "custom_match_hook d (fst t) m line = (b, d1)"
      by (cases "custom_match_hook d (fst t) m line")
    show ?thesis
    proof (cases b)
      case False
      with Cons acc Some h show ?thesis by simp
    next
      case True
      show ?thesis
      proof (cases "set_timestamps env d1 line")
        case (Inl e')
        then have "e' = ValueError ''time data does not match format''"
          by (auto simp: set_timestamps_def Let_def split: option.splits)
        with Cons.prems acc Some h True Inl show ?thesis by simp
      next
        case (Inr d2)
        with Cons acc Some h True show ?thesis by simp
      qed
    qed
  qed
qed

lemma matches_unparsed:
  assumes "strptime env (take 26 line) = None"
  shows "matches env d line = Inr (rv, d') \<Longrightarrow> \<not> rv"
  using matches_loop_unparsed [OF assms] by (simp add: matches_def)

lemma matches_error:
  "matches env d line = Inl e \<Longrightarrow> e = ValueError ''time data does not match format''"
  using matches_loop_error by (simp add: matches_def)

lemma process_line_error:
  "ParseTargetParser_process_line env ds line = Inl e \<Longrightarrow>
   e = ValueError ''time data does not match format''"
proof (induction ds arbitrary: e)
  case Nil
  then show ?case by simp
next
  case (Cons d ds)
  then show ?case
    by (auto split: sum.splits prod.splits dest: matches_error)
qed

lemma process_line_unparsed:
  assumes "strptime env (take 26 line) = None"
  shows "ParseTargetParser_process_line env ds line = Inr (ds', reports) \<Longrightarrow> reports = []"
proof (induction ds arbitrary: ds' reports)
  case Nil
  then show ?case by simp
next
  case (Cons d ds)
  then show ?case
    by (auto split: sum.splits prod.splits dest: matches_unparsed [OF assms])
qed

lemma matches_loop_default_raises:
  assumes "strptime env (take 26 line) = None" and "hook d = Default_hook"
    and "t \<in> set ts" and "re_match (fst t) (snd t) trunc \<noteq> None"
  shows "matches_loop env line trunc ts (rv, d) =
         Inl (ValueError ''time data does not match format'')"
  using assms(3)
proof (induction ts)
  case Nil
  then show ?case by simp
next
  case (Cons u ts)
  show ?case
  proof (cases "re_match (fst u) (snd u) trunc")
    case None
    with Cons assms(4) have "t \<in> set ts" by auto
    with Cons.IH None show ?thesis by simp
  next
    case (Some m)
    then show ?thesis
      using assms(2) set_timestamps_unparsed [OF assms(1), of d]
      by (simp add: custom_match_hook_def)
  qed
qed

lemma process_line_default_raises:
  assumes "strptime env (take 26 line) = None" and "hook d = Default_hook"
    and "t \<in> set (search_list d)" and "re_match (fst t) (snd t) (drop 27 line) \<noteq> None"
  shows "d \<in> set ds \<Longrightarrow>
         ParseTargetParser_process_line env ds line =
         Inl (ValueError ''time data does not match format'')"
proof (induction ds)
  case Nil
  then show ?case by simp
next
  case (Cons d0 ds)
  have raise: "matches env d line = Inl (ValueError ''time data does not match format'')"
    using matches_loop_default_raises [OF assms(1,2,3,4)] by (simp add: matches_def)
  show ?case
  proof (cases "matches env d0 line")
    case (Inl e)
    with matches_error [OF Inl] show ?thesis by simp
  next
    case (Inr r)
    with raise have "d \<noteq> d0" by auto
    with Cons have "ParseTargetParser_process_line env ds line =
         Inl (ValueError ''time data does not match format'')" by simp
    with Inr show ?thesis by (simp split: prod.splits)
  qed
qed

lemma matches_loop_no_trigger:
  "list_all (\<lambda>t. re_match (fst t) (snd t) trunc = None) ts \<Longrightarrow>
   matches_loop env line trunc ts acc = Inr acc"
  by (induction ts) (cases acc, simp)+

lemma process_line_no_trigger:
  "list_all (\<lambda>ts. list_all (\<lambda>t. re_match (fst t) (snd t) (drop 27 line) = None) ts)
     (map search_list ds) \<Longrightarrow>
   ParseTargetParser_process_line env ds line = Inr (ds, [])"
  by (induction ds) (simp_all add: matches_def matches_loop_no_trigger)

lemma ms_lits_Cons_Nil: "ms (lits (c # s)) ci (k, [], g) = []"
  by (simp add: lits_def)

lemma registry_empty_remainder:
  "list_all (\<lambda>ts. list_all (\<lambda>t. re_match (fst t) (snd t) [] = None) ts)
     (map search_list (parse_target_list :: 'dt parse_target list))"
  by (simp add: parse_target_list_def VesselDrozlin_Parser_def VerinaTomb_Parser_def
      DainFrostreaverIV_Parser_def Severilous_Parser_def CazicThule_Parser_def
      MasterYael_Parser_def FTE_Parser_def PlayerSlain_Parser_def Earthquake_Parser_def
      Random_Parser_def Gratss_Parser_def TOD_Parser_def GMOTD_Parser_def
      re_match_def ms_seq_Cons ms_lits_Cons_Nil named_ws_def named_09_def Plus_def)

lemma unstamped_line_unparsed: "strptime utc_host (take 26 unstamped_line) = None"
  by (simp add: utc_host_def unstamped_line_def utc_strptime_def)

lemma GMOTD_in_registry: "(GMOTD_Parser :: 'dt parse_target) \<in> set parse_target_list"
  by (simp add: parse_target_list_def)

lemma GMOTD_trigger:
  "hook (GMOTD_Parser :: 'dt parse_target) = Default_hook"
  "(seq [Bol, lits ''GUILD MOTD:''], False) \<in> set (search_list (GMOTD_Parser :: 'dt parse_target))"
  by (simp_all add: GMOTD_Parser_def ParseTarget_init_def)

lemma GMOTD_matches_unstamped_line:
  "re_match (fst (seq [Bol, lits ''GUILD MOTD:''], False)) (snd (seq [Bol, lits ''GUILD MOTD:''], False))
     (drop 27 unstamped_line) \<noteq> None"
  by (simp add: unstamped_line_def re_match_def ms_seq_Cons ms_lits_Cons seq_def lits_def)

text \<open>
  C2, as the spec states it, fails: a line without a time stamp whose remainder is a
  guild message of the day makes \<open>strptime\<close> raise inside \<open>matches\<close>, and the
  \<open>ValueError\<close> leaves the dispatch loop.
\<close>

theorem unparsed_stamp_raises:
  "strptime utc_host (take 26 unstamped_line) = None \<and>
   ParseTargetParser_process_line utc_host parse_target_list unstamped_line =
     Inl (ValueError ''time data does not match format'')"
  using unstamped_line_unparsed
    process_line_default_raises [OF unstamped_line_unparsed GMOTD_trigger
      GMOTD_matches_unstamped_line GMOTD_in_registry]
  by simp

text \<open>
  C2, amended. For a line whose first 26 characters do not parse as a time stamp,
  \<open>matches\<close> never returns \<open>True\<close> and the dispatch loop emits no report for the line.
  Nothing catches the \<open>ValueError\<close> of \<open>strptime\<close>: when a trigger of a detector with
  the default hook matches the remainder of the line, the error leaves the loop. For a
  line shorter than 27 characters the remainder is empty, no trigger of the registry
  matches it, and the loop ends without an exception, without a report and with the
  detectors unchanged.
\<close>

theorem unparsed_stamp_dispatch:
  "(strptime env (take 26 line) = None \<longrightarrow>
      (\<forall>d rv d'. matches env d line = Inr (rv, d') \<longrightarrow> \<not> rv) \<and>
      (\<forall>ds ds' reports.
          ParseTargetParser_process_line env ds line = Inr (ds', reports) \<longrightarrow> reports = []) \<and>
      (\<forall>ds d t. d \<in> set ds \<and> hook d = Default_hook \<and> t \<in> set (search_list d) \<and>
          re_match (fst t) (snd t) (drop 27 line) \<noteq> None \<longrightarrow>
          ParseTargetParser_process_line env ds line =
            Inl (ValueError ''time data does not match format''))) \<and>
   (length line < 27 \<longrightarrow>
      (\<forall>rs :: 'dt parse_target list.
          map search_list rs = map search_list (parse_target_list :: 'dt parse_target list) \<longrightarrow>
          ParseTargetParser_process_line env rs line = Inr (rs, [])))"
proof (intro conjI impI allI)
  fix d d' :: "'dt parse_target" and rv
  assume "strptime env (take 26 line) = None" "matches env d line = Inr (rv, d')"
  then show "\<not> rv" by (rule matches_unparsed)
next
  fix ds ds' :: "'dt parse_target list" and reports
  assume "strptime env (take 26 line) = None"
    "ParseTargetParser_process_line env ds line = Inr (ds', reports)"
  then show "reports = []" by (rule process_line_unparsed)
next
  fix ds :: "'dt parse_target list" and d :: "'dt parse_target" and t :: trigger
  assume u: "strptime env (take 26 line) = None"
    and h: "d \<in> set ds \<and> hook d = Default_hook \<and> t \<in> set (search_list d) \<and>
          re_match (fst t) (snd t) (drop 27 line) \<noteq> None"
  from h show "ParseTargetParser_process_line env ds line =
            Inl (ValueError ''time data does not match format'')"
    using process_line_default_raises [OF u, of d t ds] by blast
next
  fix rs :: "'dt parse_target list"
  assume "length line < 27"
    and rs: "map search_list rs = map search_list (parse_target_list :: 'dt parse_target list)"
  then have "drop 27 line = []" by simp
  with rs registry_empty_remainder [where ?'dt = 'dt]
  have "list_all (\<lambda>ts. list_all (\<lambda>t. re_match (fst t) (snd t) (drop 27 line) = None) ts)
     (map search_list rs)" by simp
  then show "ParseTargetParser_process_line env rs line = Inr (rs, [])"
    by (rule process_line_no_trigger)
qed

theorem unparsed_stamp_dispatch_witness:
  "strptime utc_host (take 26 unstamped_line) = None \<and>
   GMOTD_Parser \<in> set (parse_target_list :: stamp parse_target list) \<and>
   hook (GMOTD_Parser :: stamp parse_target) = Default_hook \<and>
   (seq [Bol, lits ''GUILD MOTD:''], False) \<in> set (search_list (GMOTD_Parser :: stamp parse_target)) \<and>
   re_match (seq [Bol, lits ''GUILD MOTD:'']) False (drop 27 unstamped_line) \<noteq> None \<and>
   ParseTargetParser_process_line utc_host parse_target_list unstamped_line =
     Inl (ValueError ''time data does not match format'') \<and>
   length short_line < 27 \<and>
   ParseTargetParser_process_line utc_host parse_target_list short_line =
     Inr (parse_target_list, [])"
proof -
  note T = unparsed_stamp_dispatch [of utc_host unstamped_line]
  note S = unparsed_stamp_dispatch [of utc_host short_line]
  have m: "re_match (seq [Bol, lits ''GUILD MOTD:'']) False (drop 27 unstamped_line) \<noteq> None"
    using GMOTD_matches_unstamped_line by simp
  have a: "ParseTargetParser_process_line utc_host parse_target_list unstamped_line =
     Inl (ValueError ''time data does not match format'')"
    using T unstamped_line_unparsed GMOTD_in_registry [where ?'dt = stamp]
      GMOTD_trigger [where ?'dt = stamp] m
    by (metis fst_conv snd_conv)
  have l: "length short_line < 27" by (simp add: short_line_def)
  have b: "ParseTargetParser_process_line utc_host parse_target_list short_line =
     Inr (parse_target_list, [])"
    using S l by blast
  show ?thesis
    using unstamped_line_unparsed GMOTD_in_registry GMOTD_trigger m a l b by simp
qed


section \<open>The tracker while the name of the pet is pending\<close>

lemma ms_lits_step:
  "ms (lits (c # s)) ci (k, u, g) =
     (case u of
        [] \<Rightarrow> []
      | a # as \<Rightarrow> if (if ci then lower a = lower c else a = c)
                  then ms (lits s) ci (Suc k, as, g) else [])"
  by (cases u) (simp_all add: lits_def)

lemma ms_lits_Nil: "ms (lits []) ci x = [x]"
  by (simp add: lits_def)

lemmas rx_eval =
  re_match_def ms_seq_Cons ms_lits_step ms_lits_Nil seq_def [of "[]"] alts_def Opt_def Plus_def
  named_ws_def named_wts_def named_d_def named_09_def in_class_def item_ok_def
  is_word_def is_digit_def lower_def capture_def py_str_opt_def

lemma cast_line_matches:
  "re_match rx_loading False (drop 27 cast_line) = None"
  "re_match rx_no_pet False (drop 27 cast_line) = None"
  "re_match rx_casting False (drop 27 cast_line) = Some [(''spell_name'', ''Bone Walk'')]"
  "re_match rx_service False (drop 27 cast_line) = None"
  "re_match (rx_beams None) True (drop 27 cast_line) = None"
  "re_match (rx_melee None) True (drop 27 cast_line) = None"
  "re_match rx_leader False (drop 27 cast_line) = None"
  "re_match rx_attacking False (drop 27 cast_line) = None"
  by (simp_all add: cast_line_def stamp1_def rx_loading_def rx_no_pet_def rx_casting_def
      rx_service_def rx_beams_def rx_melee_def rx_leader_def rx_attacking_def rx_eval)

lemma pet_dict_Bone_Walk: "map_of load_pet_dict ''Bone Walk'' = Some Bone_Walk"
  by (simp add: load_pet_dict_def Bone_Walk_def)

lemma pet_dict_Charm_Pet: "map_of load_pet_dict ''CharmPet'' = Some Charm_Pet"
  by (simp add: load_pet_dict_def Charm_Pet_def)

lemmas tracker_patterns =
  rx_loading_def rx_no_pet_def rx_casting_def rx_service_def rx_beams_def rx_melee_def
  rx_leader_def rx_attacking_def rx_disperses_def rx_failed_def rx_non_melee_def

lemma none_hits_line_matches:
  "re_match rx_loading False (drop 27 none_hits_line) = None"
  "re_match (rx_disperses None) True (drop 27 none_hits_line) = None"
  "re_match (rx_failed None) True (drop 27 none_hits_line) = None"
  "re_match rx_no_pet False (drop 27 none_hits_line) = None"
  "re_match rx_casting False (drop 27 none_hits_line) = None"
  "re_match rx_service False (drop 27 none_hits_line) = None"
  "re_match (rx_beams None) True (drop 27 none_hits_line) = None"
  "re_match (rx_melee None) True (drop 27 none_hits_line) =
     Some [(''damage'', ''8''), (''target_name'', ''a rat'')]"
  "re_match rx_leader False (drop 27 none_hits_line) = None"
  "re_match rx_attacking False (drop 27 none_hits_line) = None"
  by (simp_all add: none_hits_line_def stamp2_def tracker_patterns rx_eval)

lemma cast_line_step:
  "PetTracker_process_line cname PetTracker_init cast_line =
     (PetTracker_init\<lparr>current_pet := Some (Pet_init Bone_Walk)\<rparr>,
      [Text ''*Pet being created from spell (Bone Walk), name TBD*''])"
  by (simp add: PetTracker_process_line_def pet_lost_def pet_cast_def pet_named_def
      pet_lifetap_def pet_scans_def pet_reset_def cast_line_matches PetTracker_init_def
      pet_dict_Bone_Walk group_def py_str_opt_def Pet_init_def)

lemma none_hits_line_step:
  "PetTracker_process_line cname (PetTracker_init\<lparr>current_pet := Some (Pet_init Bone_Walk)\<rparr>)
       none_hits_line =
     (PetTracker_init\<lparr>current_pet :=
        Some ((Pet_init Bone_Walk)\<lparr>max_melee := 8, pet_rank := 1, pet_level := 6\<rparr>)\<rparr>,
      [Pet_report ((Pet_init Bone_Walk)\<lparr>max_melee := 8, pet_rank := 1, pet_level := 6\<rparr>),
       Text ''*Identified via max melee damage*''])"
  by (simp add: PetTracker_process_line_def pet_lost_def pet_cast_def pet_named_def
      pet_lifetap_def pet_scans_def pet_reset_def none_hits_line_matches PetTracker_init_def
      group_def py_str_opt_def Pet_init_def py_int_def digit_val_def Bone_Walk_def
      charm_level_def Let_def)

text \<open>
  C8 fails on the code. While the name of a new pet is pending its name is \<open>None\<close>,
  which the tracker formats into its patterns as the text \<open>None\<close>. A damage line of
  someone called None is then taken for the pet's, and the rank and level of the pet
  are announced although \<open>name_pending\<close> is still set.
\<close>

theorem pending_pet_is_announced:
  "process_lines cname PetTracker_init [cast_line, none_hits_line] =
     (PetTracker_init\<lparr>current_pet :=
        Some \<lparr>pet_name = None, name_pending = True, lifetap_pending = False,
              pet_spell = Bone_Walk, max_melee = 8, pet_rank = 1, pet_level = 6\<rparr>\<rparr>,
      [Text ''*Pet being created from spell (Bone Walk), name TBD*'',
       Pet_report \<lparr>pet_name = None, name_pending = True, lifetap_pending = False,
                    pet_spell = Bone_Walk, max_melee = 8, pet_rank = 1, pet_level = 6\<rparr>,
       Text ''*Identified via max melee damage*''])"
  by (simp add: cast_line_step none_hits_line_step) (simp add: Pet_init_def)


section \<open>The wire record\<close>

lemma split_max_nonempty [simp]: "split_max n c s \<noteq> []"
proof (induction n c s rule: split_max.induct)
  case (1 c s)
  then show ?case by simp
next
  case (2 n c)
  then show ?case by simp
next
  case (3 n c x xs)
  then show ?case by simp
qed

lemma split_max_append:
  "c \<notin> set a \<Longrightarrow> split_max (Suc n) c (a @ c # rest) = a # split_max n c rest"
  by (induction a) auto

lemma str_nat_digits: "list_all is_digit (str_nat n)"
proof (induction n rule: str_nat.induct)
  case (1 n)
  have d: "k < 10 \<Longrightarrow> is_digit (''0123456789'' ! k)" for k :: nat
  proof -
    assume "k < 10"
    then have "k \<in> {0, 1, 2, 3, 4, 5, 6, 7, 8, 9}" by auto
    then show ?thesis by (auto simp: is_digit_def)
  qed
  show ?case
  proof (cases "n < 10")
    case True
    then show ?thesis by (subst str_nat.simps) (simp add: d)
  next
    case False
    with 1 have "list_all is_digit (str_nat (n div 10))" by simp
    with False show ?thesis by (subst str_nat.simps) (simp add: d)
  qed
qed

lemma str_nat_no_bar: "CHR ''|'' \<notin> set (str_nat n)"
proof
  assume "CHR ''|'' \<in> set (str_nat n)"
  with str_nat_digits [of n] have "is_digit CHR ''|''" by (auto simp: list_all_iff)
  then show False by (simp add: is_digit_def)
qed

lemma split_record:
  assumes "CHR ''|'' \<notin> set f0" "CHR ''|'' \<notin> set f1" "CHR ''|'' \<notin> set f2"
    "CHR ''|'' \<notin> set f3" "CHR ''|'' \<notin> set f4"
  shows "split_max 5 CHR ''|''
           (f0 @ ''|'' @ f1 @ ''|'' @ f2 @ ''|'' @ f3 @ ''|'' @ f4 @ ''|'' @ f5) =
         [f0, f1, f2, f3, f4, f5]"
proof -
  have n: "(5::nat) = Suc (Suc (Suc (Suc (Suc 0))))" by simp
  show ?thesis
    unfolding n using assms by (simp add: split_max_append)
qed

lemma stamp1_parses:
  "strptime utc_host (take 26 stamp1) =
     Some \<lparr>year = 2022, month = 8, day = 13, hour = 15, minute = 36, second = 21\<rparr>"
  by (simp add: utc_host_def stamp1_def utc_strptime_def num_of_def is_digit_def py_int_def
      digit_val_def days_in_month_def)

lemma utc_str_stamp1:
  "utc_str \<lparr>year = 2022, month = 8, day = 13, hour = 15, minute = 36, second = 21\<rparr> =
     ''2022-08-13 15:36:21+00:00''"
  by (simp add: utc_str_def pad_def str_nat.simps)

lemma motd_pattern_matches:
  "re_match (seq [Bol, lits ''GUILD MOTD:'']) False ''GUILD MOTD: raid at 8 | bring potions'' =
     Some []"
  by (simp add: re_match_def seq_def lits_def)

lemma matches_motd_line:
  "matches utc_host GMOTD_Parser motd_line =
     Inr (True, GMOTD_Parser
       \<lparr>matching_line := Some motd_line,
        local_datetime :=
          Some \<lparr>year = 2022, month = 8, day = 13, hour = 15, minute = 36, second = 21\<rparr>,
        utc_datetime :=
          Some \<lparr>year = 2022, month = 8, day = 13, hour = 15, minute = 36, second = 21\<rparr>\<rparr>)"
proof -
  have d: "drop 27 motd_line = ''GUILD MOTD: raid at 8 | bring potions''"
    by (simp add: motd_line_def stamp1_def)
  have t: "take 26 motd_line = take 26 stamp1"
    by (simp add: motd_line_def stamp1_def)
  have s: "search_list (GMOTD_Parser :: stamp parse_target) = [(seq [Bol, lits ''GUILD MOTD:''], False)]"
    "hook (GMOTD_Parser :: stamp parse_target) = Default_hook"
    by (simp_all add: GMOTD_Parser_def ParseTarget_init_def)
  have u: "as_local utc_host = (\<lambda>t. t)" "as_utc utc_host = (\<lambda>t. t)"
    by (simp_all add: utc_host_def)
  show ?thesis
    unfolding matches_def Let_def d s
    using motd_pattern_matches stamp1_parses
    by (simp add: custom_match_hook_def s set_timestamps_def t u Let_def)
qed

lemma GMOTD_fields:
  "eqmarker (GMOTD_Parser :: 'dt parse_target) = ''EQ__''"
  "field_separator (GMOTD_Parser :: 'dt parse_target) = ''|''"
  "parsing_player (GMOTD_Parser :: 'dt parse_target) = ''Unknown''"
  "short_description (GMOTD_Parser :: 'dt parse_target) = ''GMOTD''"
  "str_nat (parse_target_ID (GMOTD_Parser :: 'dt parse_target)) = ''14''"
  by (simp_all add: GMOTD_Parser_def ParseTarget_init_def str_nat.simps)

text \<open>
  C7. Round trip of the wire record. \<open>report\<close> renders the six fields marker, character
  name, detector id, description, UTC time stamp and raw line, in this order,
  separated by \<open>|\<close>. When the marker, the character name, the description and the
  rendered time stamp hold no \<open>|\<close> (the detector id is a number and never does),
  splitting the record at its first five \<open>|\<close> returns exactly these six fields, and
  parsing the record by the field positions recovers the tuple of character name,
  detector id, description, time stamp and raw line. Nothing is asked of the raw line:
  it is the last field and may hold the separator.
\<close>

theorem report_round_trip:
  assumes "field_separator d = ''|''"
    and "CHR ''|'' \<notin> set (eqmarker d)"
    and "CHR ''|'' \<notin> set (parsing_player d)"
    and "CHR ''|'' \<notin> set (short_description d)"
    and "CHR ''|'' \<notin> set (py_str_opt (map_option (str_dt env) (utc_datetime d)))"
  shows "report env d =
           eqmarker d @ ''|'' @ parsing_player d @ ''|'' @ str_nat (parse_target_ID d) @ ''|'' @
           short_description d @ ''|'' @
           py_str_opt (map_option (str_dt env) (utc_datetime d)) @ ''|'' @
           py_str_opt (matching_line d) \<and>
         split_max 5 CHR ''|'' (report env d) =
           [eqmarker d, parsing_player d, str_nat (parse_target_ID d), short_description d,
            py_str_opt (map_option (str_dt env) (utc_datetime d)),
            py_str_opt (matching_line d)] \<and>
         parse_report (report env d) =
           Some (parsing_player d, str_nat (parse_target_ID d), short_description d,
                 py_str_opt (map_option (str_dt env) (utc_datetime d)),
                 py_str_opt (matching_line d))"
proof -
  let ?utc = "py_str_opt (map_option (str_dt env) (utc_datetime d))"
  let ?raw = "py_str_opt (matching_line d)"
  have r: "report env d =
           eqmarker d @ ''|'' @ parsing_player d @ ''|'' @ str_nat (parse_target_ID d) @ ''|'' @
           short_description d @ ''|'' @ ?utc @ ''|'' @ ?raw"
    by (simp add: report_def assms(1))
  have s: "split_max 5 CHR ''|'' (report env d) =
           [eqmarker d, parsing_player d, str_nat (parse_target_ID d), short_description d,
            ?utc, ?raw]"
    unfolding r by (rule split_record) (use assms str_nat_no_bar in simp_all)
  have p: "parse_report (report env d) =
           Some (parsing_player d, str_nat (parse_target_ID d), short_description d, ?utc, ?raw)"
    by (simp add: parse_report_def s)
  from r s p show ?thesis by blast
qed

theorem report_round_trip_witness:
  "matches utc_host GMOTD_Parser motd_line =
     Inr (True, GMOTD_Parser
       \<lparr>matching_line := Some motd_line,
        local_datetime :=
          Some \<lparr>year = 2022, month = 8, day = 13, hour = 15, minute = 36, second = 21\<rparr>,
        utc_datetime :=
          Some \<lparr>year = 2022, month = 8, day = 13, hour = 15, minute = 36, second = 21\<rparr>\<rparr>) \<and>
   field_separator (GMOTD_Parser :: stamp parse_target) = ''|'' \<and>
   CHR ''|'' \<notin> set (eqmarker (GMOTD_Parser :: stamp parse_target)) \<and>
   CHR ''|'' \<notin> set (parsing_player (GMOTD_Parser :: stamp parse_target)) \<and>
   CHR ''|'' \<notin> set (short_description (GMOTD_Parser :: stamp parse_target)) \<and>
   CHR ''|'' \<notin> set ''2022-08-13 15:36:21+00:00'' \<and>
   CHR ''|'' \<in> set motd_line \<and>
   report utc_host (GMOTD_Parser
       \<lparr>matching_line := Some motd_line,
        local_datetime :=
          Some \<lparr>year = 2022, month = 8, day = 13, hour = 15, minute = 36, second = 21\<rparr>,
        utc_datetime :=
          Some \<lparr>year = 2022, month = 8, day = 13, hour = 15, minute = 36, second = 21\<rparr>\<rparr>) =
     ''EQ__|Unknown|14|GMOTD|2022-08-13 15:36:21+00:00|'' @ motd_line \<and>
   parse_report (''EQ__|Unknown|14|GMOTD|2022-08-13 15:36:21+00:00|'' @ motd_line) =
     Some (''Unknown'', ''14'', ''GMOTD'', ''2022-08-13 15:36:21+00:00'', motd_line)"
proof -
  let ?d = "(GMOTD_Parser :: stamp parse_target)
       \<lparr>matching_line := Some motd_line,
        local_datetime :=
          Some \<lparr>year = 2022, month = 8, day = 13, hour = 15, minute = 36, second = 21\<rparr>,
        utc_datetime :=
          Some \<lparr>year = 2022, month = 8, day = 13, hour = 15, minute = 36, second = 21\<rparr>\<rparr>"
  have u: "str_dt utc_host = utc_str"
    by (simp add: utc_host_def)
  have h: "field_separator ?d = ''|''" "CHR ''|'' \<notin> set (eqmarker ?d)"
    "CHR ''|'' \<notin> set (parsing_player ?d)" "CHR ''|'' \<notin> set (short_description ?d)"
    "CHR ''|'' \<notin> set (py_str_opt (map_option (str_dt utc_host) (utc_datetime ?d)))"
    by (simp_all add: GMOTD_fields u utc_str_stamp1 py_str_opt_def)
  have f: "eqmarker ?d = ''EQ__''" "parsing_player ?d = ''Unknown''"
    "str_nat (parse_target_ID ?d) = ''14''" "short_description ?d = ''GMOTD''"
    "py_str_opt (map_option (str_dt utc_host) (utc_datetime ?d)) = ''2022-08-13 15:36:21+00:00''"
    "py_str_opt (matching_line ?d) = motd_line"
    by (simp_all add: GMOTD_fields u utc_str_stamp1 py_str_opt_def)
  from report_round_trip [OF h]
  have r: "report utc_host ?d =
           eqmarker ?d @ ''|'' @ parsing_player ?d @ ''|'' @ str_nat (parse_target_ID ?d) @ ''|'' @
           short_description ?d @ ''|'' @
           py_str_opt (map_option (str_dt utc_host) (utc_datetime ?d)) @ ''|'' @
           py_str_opt (matching_line ?d)"
    and p: "parse_report (report utc_host ?d) =
           Some (parsing_player ?d, str_nat (parse_target_ID ?d), short_description ?d,
                 py_str_opt (map_option (str_dt utc_host) (utc_datetime ?d)),
                 py_str_opt (matching_line ?d))"
    by blast+
  have r': "report utc_host ?d = ''EQ__|Unknown|14|GMOTD|2022-08-13 15:36:21+00:00|'' @ motd_line"
    unfolding r f by simp
  have p': "parse_report (''EQ__|Unknown|14|GMOTD|2022-08-13 15:36:21+00:00|'' @ motd_line) =
     Some (''Unknown'', ''14'', ''GMOTD'', ''2022-08-13 15:36:21+00:00'', motd_line)"
    using p unfolding r' f .
  have c: "CHR ''|'' \<notin> set ''2022-08-13 15:36:21+00:00''" by simp
  have b: "CHR ''|'' \<in> set motd_line" by (simp add: motd_line_def)
  have g: "field_separator (GMOTD_Parser :: stamp parse_target) = ''|''"
    "CHR ''|'' \<notin> set (eqmarker (GMOTD_Parser :: stamp parse_target))"
    "CHR ''|'' \<notin> set (parsing_player (GMOTD_Parser :: stamp parse_target))"
    "CHR ''|'' \<notin> set (short_description (GMOTD_Parser :: stamp parse_target))"
    by (simp_all add: GMOTD_fields)
  from matches_motd_line g c b r' p' show ?thesis by blast
qed


section \<open>The maximum of the melee damage\<close>

lemma melee_rank_frame:
  "pet_name (melee_rank d stats p) = pet_name p \<and>
   name_pending (melee_rank d stats p) = name_pending p \<and>
   lifetap_pending (melee_rank d stats p) = lifetap_pending p \<and>
   pet_spell (melee_rank d stats p) = pet_spell p \<and>
   max_melee (melee_rank d stats p) = max_melee p"
  by (induction stats arbitrary: p) simp_all

lemma charm_level_frame:
  "pet_name (charm_level d p) = pet_name p \<and>
   name_pending (charm_level d p) = name_pending p \<and>
   lifetap_pending (charm_level d p) = lifetap_pending p \<and>
   pet_spell (charm_level d p) = pet_spell p \<and>
   max_melee (charm_level d p) = max_melee p \<and>
   pet_rank (charm_level d p) = pet_rank p"
  by (simp add: charm_level_def)

lemma new_max_frame:
  "pet_name (new_max p d) = pet_name p \<and>
   name_pending (new_max p d) = name_pending p \<and>
   lifetap_pending (new_max p d) = lifetap_pending p \<and>
   pet_spell (new_max p d) = pet_spell p \<and>
   max_melee (new_max p d) = d"
  by (simp add: new_max_def charm_level_frame melee_rank_frame)

lemma melee_rank_filter:
  "melee_rank d stats p =
     (case filter (\<lambda>e. stat_max_melee e = d) stats of
        [] \<Rightarrow> p
      | e # es \<Rightarrow> p\<lparr>pet_rank := stat_rank (last (e # es)),
                     pet_level := of_nat (stat_pet_level (last (e # es)))\<rparr>)"
proof (induction stats arbitrary: p)
  case Nil
  then show ?case by simp
next
  case (Cons a stats)
  show ?case
    by (simp add: Cons.IH split: list.splits)
qed

lemma new_max_rank:
  "pet_rank (new_max p d) =
     (case filter (\<lambda>e. stat_max_melee e = d) (pet_stats_list (pet_spell p)) of
        [] \<Rightarrow> pet_rank p
      | e # es \<Rightarrow> stat_rank (last (e # es)))"
  by (simp add: new_max_def charm_level_frame melee_rank_filter split: list.splits)

lemma new_max_level:
  "spell_name (pet_spell p) \<noteq> ''CharmPet'' \<Longrightarrow>
   pet_level (new_max p d) =
     (case filter (\<lambda>e. stat_max_melee e = d) (pet_stats_list (pet_spell p)) of
        [] \<Rightarrow> pet_level p
      | e # es \<Rightarrow> of_nat (stat_pet_level (last (e # es))))"
  by (simp add: new_max_def charm_level_def melee_rank_frame melee_rank_filter
      split: list.splits)

lemma new_max_charm_level:
  "spell_name (pet_spell p) = ''CharmPet'' \<Longrightarrow>
   pet_level (new_max p d) = (if d \<le> 60 then of_nat d / 2 else (of_nat d + 60) / 4)"
  by (simp add: new_max_def charm_level_def melee_rank_frame)

lemma process_melee_line:
  assumes "current_pet t = Some p"
    and "melee_line (pet_name p) line d"
  shows "PetTracker_process_line cname t line =
         (if d > max_melee p
          then (t\<lparr>current_pet := Some (new_max p d)\<rparr>,
                [Pet_report (new_max p d), Text ''*Identified via max melee damage*''])
          else (t, []))"
proof -
  from assms(2) obtain m where
    m: "re_match (rx_melee (pet_name p)) True (drop 27 line) = Some m"
       "py_int (py_str_opt (group m ''damage'')) = d"
    and others: "re_match rx_loading False (drop 27 line) = None"
       "re_match (rx_disperses (pet_name p)) True (drop 27 line) = None"
       "re_match (rx_failed (pet_name p)) True (drop 27 line) = None"
       "re_match rx_no_pet False (drop 27 line) = None"
       "re_match rx_casting False (drop 27 line) = None"
       "re_match rx_service False (drop 27 line) = None"
       "re_match rx_non_melee False (drop 27 line) = None"
       "re_match (rx_beams (pet_name p)) True (drop 27 line) = None"
       "re_match rx_leader False (drop 27 line) = None"
       "re_match rx_attacking False (drop 27 line) = None"
    by (auto simp: melee_line_def Let_def split: option.splits)
  have lost: "pet_lost t (drop 27 line) = (t, [])"
    using assms(1) others by (simp add: pet_lost_def)
  have cast: "pet_cast t (drop 27 line) = (t, [])"
    using others by (simp add: pet_cast_def)
  have named: "pet_named t (drop 27 line) = (t, [])"
    using assms(1) others by (simp add: pet_named_def)
  have lifetap: "pet_lifetap t (drop 27 line) = (t, [])"
    using assms(1) others by (simp add: pet_lifetap_def)
  have t: "t\<lparr>current_pet := Some p\<rparr> = t"
    using assms(1) by simp
  have scans: "pet_scans t (drop 27 line) =
         (if d > max_melee p
          then (t\<lparr>current_pet := Some (new_max p d)\<rparr>,
                [Pet_report (new_max p d), Text ''*Identified via max melee damage*''])
          else (t, []))"
    using assms(1) others m t by (simp add: pet_scans_def Let_def new_max_def)
  have reset: "pet_reset cname t' (drop 27 line) = (t', [])" for t'
    using others by (simp add: pet_reset_def)
  show ?thesis
    by (simp add: PetTracker_process_line_def lost cast named lifetap scans reset)
qed

lemma boney_line_melee: "melee_line (Some ''Boney'') boney_line 12"
  by (simp add: melee_line_def boney_line_def stamp2_def tracker_patterns rx_eval
      group_def py_int_def digit_val_def Let_def)

lemma fluffy_line_melee: "melee_line (Some ''Fluffy'') fluffy_line 62"
  by (simp add: melee_line_def fluffy_line_def stamp2_def tracker_patterns rx_eval
      group_def py_int_def digit_val_def Let_def)

text \<open>
  C5. The maximum of the melee damage. Let the tracker have a pet whose name is known
  (\<open>name_pending\<close> is not set), and let the line be a melee line of this pet that
  reports the damage \<open>d\<close>. If \<open>d\<close> is strictly greater than the maximum so far, the
  maximum becomes \<open>d\<close>, the rank and (for a spell other than the placeholder of a
  charmed pet) the level are those of the entry of the table of the spell whose
  \<open>max_melee\<close> is \<open>d\<close> (the last such entry; unchanged when there is none), nothing else
  of the pet changes, and the pet and the message are sent. If \<open>d\<close> is at most the
  maximum so far, in particular equal to it, the tracker is unchanged and nothing is
  sent. Delivering the line a second time changes nothing and sends nothing.
\<close>

theorem melee_max_update:
  assumes "current_pet t = Some p" and "\<not> name_pending p"
    and "melee_line (pet_name p) line d"
  shows "PetTracker_process_line cname t line =
           (if d > max_melee p
            then (t\<lparr>current_pet := Some (new_max p d)\<rparr>,
                  [Pet_report (new_max p d), Text ''*Identified via max melee damage*''])
            else (t, [])) \<and>
         max_melee (new_max p d) = d \<and>
         pet_rank (new_max p d) =
           (case filter (\<lambda>e. stat_max_melee e = d) (pet_stats_list (pet_spell p)) of
              [] \<Rightarrow> pet_rank p
            | e # es \<Rightarrow> stat_rank (last (e # es))) \<and>
         (if spell_name (pet_spell p) = ''CharmPet'' then True
          else pet_level (new_max p d) =
            (case filter (\<lambda>e. stat_max_melee e = d) (pet_stats_list (pet_spell p)) of
               [] \<Rightarrow> pet_level p
             | e # es \<Rightarrow> of_nat (stat_pet_level (last (e # es))))) \<and>
         pet_name (new_max p d) = pet_name p \<and>
         name_pending (new_max p d) = name_pending p \<and>
         lifetap_pending (new_max p d) = lifetap_pending p \<and>
         pet_spell (new_max p d) = pet_spell p \<and>
         PetTracker_process_line cname (fst (PetTracker_process_line cname t line)) line =
           (fst (PetTracker_process_line cname t line), [])"
proof -
  note first = process_melee_line [OF assms(1,3), of cname]
  have again: "PetTracker_process_line cname (fst (PetTracker_process_line cname t line)) line =
           (fst (PetTracker_process_line cname t line), [])"
  proof (cases "d > max_melee p")
    case True
    let ?t = "t\<lparr>current_pet := Some (new_max p d)\<rparr>"
    have c: "current_pet ?t = Some (new_max p d)" by simp
    have l: "melee_line (pet_name (new_max p d)) line d"
      using assms(3) by (simp add: new_max_frame)
    have "PetTracker_process_line cname ?t line = (?t, [])"
      using process_melee_line [OF c l, of cname] by (simp add: new_max_frame)
    with True first show ?thesis by simp
  next
    case False
    with first show ?thesis by simp
  qed
  have level: "if spell_name (pet_spell p) = ''CharmPet'' then True
          else pet_level (new_max p d) =
            (case filter (\<lambda>e. stat_max_melee e = d) (pet_stats_list (pet_spell p)) of
               [] \<Rightarrow> pet_level p
             | e # es \<Rightarrow> of_nat (stat_pet_level (last (e # es))))"
    using new_max_level [of p d] by simp
  from first again level new_max_rank [of p d] new_max_frame [of p d]
  show ?thesis by blast
qed

theorem melee_max_update_witness:
  "current_pet (PetTracker_init\<lparr>current_pet := Some boney\<rparr>) = Some boney \<and>
   \<not> name_pending boney \<and>
   melee_line (pet_name boney) boney_line 12 \<and>
   PetTracker_process_line ''Azleep'' (PetTracker_init\<lparr>current_pet := Some boney\<rparr>) boney_line =
     (PetTracker_init\<lparr>current_pet :=
        Some (boney\<lparr>max_melee := 12, pet_rank := 3, pet_level := 8\<rparr>)\<rparr>,
      [Pet_report (boney\<lparr>max_melee := 12, pet_rank := 3, pet_level := 8\<rparr>),
       Text ''*Identified via max melee damage*'']) \<and>
   PetTracker_process_line ''Azleep''
       (PetTracker_init\<lparr>current_pet :=
          Some (boney\<lparr>max_melee := 12, pet_rank := 3, pet_level := 8\<rparr>)\<rparr>) boney_line =
     (PetTracker_init\<lparr>current_pet :=
        Some (boney\<lparr>max_melee := 12, pet_rank := 3, pet_level := 8\<rparr>)\<rparr>, [])"
proof -
  let ?t = "PetTracker_init\<lparr>current_pet := Some boney\<rparr>"
  have h: "current_pet ?t = Some boney" "\<not> name_pending boney"
    "melee_line (pet_name boney) boney_line 12"
    using boney_line_melee by (simp_all add: boney_def)
  have n: "new_max boney 12 = boney\<lparr>max_melee := 12, pet_rank := 3, pet_level := 8\<rparr>"
    by (simp add: new_max_def boney_def Pet_init_def Bone_Walk_def charm_level_def)
  have m: "max_melee boney = 0"
    by (simp add: boney_def Pet_init_def)
  from melee_max_update [OF h, of "''Azleep''"]
  have first: "PetTracker_process_line ''Azleep'' ?t boney_line =
           (if 12 > max_melee boney
            then (?t\<lparr>current_pet := Some (new_max boney 12)\<rparr>,
                  [Pet_report (new_max boney 12), Text ''*Identified via max melee damage*''])
            else (?t, []))"
    and again: "PetTracker_process_line ''Azleep''
           (fst (PetTracker_process_line ''Azleep'' ?t boney_line)) boney_line =
           (fst (PetTracker_process_line ''Azleep'' ?t boney_line), [])"
    by blast+
  have first': "PetTracker_process_line ''Azleep'' ?t boney_line =
     (PetTracker_init\<lparr>current_pet :=
        Some (boney\<lparr>max_melee := 12, pet_rank := 3, pet_level := 8\<rparr>)\<rparr>,
      [Pet_report (boney\<lparr>max_melee := 12, pet_rank := 3, pet_level := 8\<rparr>),
       Text ''*Identified via max melee damage*''])"
    unfolding first n m by simp
  have again': "PetTracker_process_line ''Azleep''
       (PetTracker_init\<lparr>current_pet :=
          Some (boney\<lparr>max_melee := 12, pet_rank := 3, pet_level := 8\<rparr>)\<rparr>) boney_line =
     (PetTracker_init\<lparr>current_pet :=
        Some (boney\<lparr>max_melee := 12, pet_rank := 3, pet_level := 8\<rparr>)\<rparr>, [])"
    using again unfolding first' by simp
  from h first' again' show ?thesis by blast
qed

text \<open>
  C6. The level of a charmed pet. Let the spell of the pet be the placeholder
  \<open>CharmPet\<close>, and let a melee line of the pet report a damage \<open>d\<close> that is strictly
  greater than the maximum so far. Then the maximum becomes \<open>d\<close>, the level of the pet
  becomes \<open>d / 2\<close> if \<open>d \<le> 60\<close> and \<open>(d + 60) / 4\<close> otherwise, and the pet is sent with
  this level. The quotients are those of the rational numbers; the float of the source
  is this number for every \<open>d\<close> with \<open>d + 60 < 2^53\<close>.
\<close>

theorem charm_pet_level:
  assumes "current_pet t = Some p" and "spell_name (pet_spell p) = ''CharmPet''"
    and "melee_line (pet_name p) line d" and "d > max_melee p" and "d + 60 < 2 ^ 53"
  shows "PetTracker_process_line cname t line =
           (t\<lparr>current_pet := Some (new_max p d)\<rparr>,
            [Pet_report (new_max p d), Text ''*Identified via max melee damage*'']) \<and>
         max_melee (new_max p d) = d \<and>
         pet_level (new_max p d) = (if d \<le> 60 then of_nat d / 2 else (of_nat d + 60) / 4)"
proof -
  from process_melee_line [OF assms(1,3), of cname] assms(4)
  have "PetTracker_process_line cname t line =
           (t\<lparr>current_pet := Some (new_max p d)\<rparr>,
            [Pet_report (new_max p d), Text ''*Identified via max melee damage*''])"
    by simp
  with new_max_frame [of p d] new_max_charm_level [OF assms(2), of d]
  show ?thesis by blast
qed

theorem charm_pet_level_witness:
  "current_pet (PetTracker_init\<lparr>current_pet := Some fluffy\<rparr>) = Some fluffy \<and>
   spell_name (pet_spell fluffy) = ''CharmPet'' \<and>
   melee_line (pet_name fluffy) fluffy_line 62 \<and>
   (62::nat) > max_melee fluffy \<and>
   (62::nat) + 60 < 2 ^ 53 \<and>
   PetTracker_process_line ''Azleep'' (PetTracker_init\<lparr>current_pet := Some fluffy\<rparr>) fluffy_line =
     (PetTracker_init\<lparr>current_pet := Some (fluffy\<lparr>max_melee := 62, pet_level := 61 / 2\<rparr>)\<rparr>,
      [Pet_report (fluffy\<lparr>max_melee := 62, pet_level := 61 / 2\<rparr>),
       Text ''*Identified via max melee damage*''])"
proof -
  let ?t = "PetTracker_init\<lparr>current_pet := Some fluffy\<rparr>"
  have h: "current_pet ?t = Some fluffy" "spell_name (pet_spell fluffy) = ''CharmPet''"
    "melee_line (pet_name fluffy) fluffy_line 62" "(62::nat) > max_melee fluffy"
    "(62::nat) + 60 < 2 ^ 53"
    using fluffy_line_melee by (simp_all add: fluffy_def Pet_init_def Charm_Pet_def)
  have n: "new_max fluffy 62 = fluffy\<lparr>max_melee := 62, pet_level := 61 / 2\<rparr>"
    by (simp add: new_max_def fluffy_def Pet_init_def Charm_Pet_def charm_level_def)
  from charm_pet_level [OF h, of "''Azleep''"]
  have "PetTracker_process_line ''Azleep'' ?t fluffy_line =
           (?t\<lparr>current_pet := Some (new_max fluffy 62)\<rparr>,
            [Pet_report (new_max fluffy 62), Text ''*Identified via max melee damage*''])"
    by blast
  then have r: "PetTracker_process_line ''Azleep'' ?t fluffy_line =
     (PetTracker_init\<lparr>current_pet := Some (fluffy\<lparr>max_melee := 62, pet_level := 61 / 2\<rparr>)\<rparr>,
      [Pet_report (fluffy\<lparr>max_melee := 62, pet_level := 61 / 2\<rparr>),
       Text ''*Identified via max melee damage*''])"
    unfolding n by simp
  from h r show ?thesis by blast
qed


section \<open>The latest log file\<close>

lemma len_step_char:
  "y \<in> set (step_char P x) \<Longrightarrow> length (fst (snd y)) + 1 = length (fst (snd x))"
proof -
  assume y: "y \<in> set (step_char P x)"
  obtain k s g where x: "x = (k, s, g)" by (cases x) auto
  show ?thesis
  proof (cases s)
    case Nil
    with y x show ?thesis by simp
  next
    case (Cons a as)
    with y x show ?thesis by (auto split: if_splits)
  qed
qed

lemma len_Cat:
  assumes "\<forall>x y. y \<in> set (ms r1 ci x) \<longrightarrow> length (fst (snd y)) + w1 = length (fst (snd x))"
    and "\<forall>x y. y \<in> set (ms r2 ci x) \<longrightarrow> length (fst (snd y)) + w2 = length (fst (snd x))"
  shows "\<forall>x y. y \<in> set (ms (Cat r1 r2) ci x) \<longrightarrow>
           length (fst (snd y)) + (w1 + w2) = length (fst (snd x))"
proof (intro allI impI)
  fix x y
  assume "y \<in> set (ms (Cat r1 r2) ci x)"
  then obtain z where z: "z \<in> set (ms r1 ci x)" and y: "y \<in> set (ms r2 ci z)"
    by auto
  from assms(1) z have "length (fst (snd z)) + w1 = length (fst (snd x))" by blast
  moreover from assms(2) y have "length (fst (snd y)) + w2 = length (fst (snd z))" by blast
  ultimately show "length (fst (snd y)) + (w1 + w2) = length (fst (snd x))" by simp
qed

lemma len_Lit:
  "\<forall>x y. y \<in> set (ms (Lit c) ci x) \<longrightarrow> length (fst (snd y)) + 1 = length (fst (snd x))"
  by (auto dest: len_step_char)

lemma len_Dot:
  "\<forall>x y. y \<in> set (ms Dot ci x) \<longrightarrow> length (fst (snd y)) + 1 = length (fst (snd x))"
  by (auto dest: len_step_char)

lemma len_Eps:
  "\<forall>x y. y \<in> set (ms Eps ci x) \<longrightarrow> length (fst (snd y)) + 0 = length (fst (snd x))"
  by simp

lemma len_rx_of_text:
  "rx_of_text s = Some r \<Longrightarrow>
   \<forall>x y. y \<in> set (ms r ci x) \<longrightarrow> length (fst (snd y)) + length s = length (fst (snd x))"
proof (induction s arbitrary: r)
  case Nil
  then show ?case by simp
next
  case (Cons c cs)
  from Cons.prems(1) obtain r' where r': "rx_of_text cs = Some r'"
    and r: "r = Cat (if c = CHR ''.'' then Dot else Lit c) r'"
    by (auto split: if_splits option.splits)
  have h: "\<forall>x y. y \<in> set (ms (if c = CHR ''.'' then Dot else Lit c) ci x) \<longrightarrow>
      length (fst (snd y)) + 1 = length (fst (snd x))"
    using len_Lit [of c ci] len_Dot [of ci] by (cases "c = CHR ''.''") simp_all
  have e: "length (c # cs) = 1 + length cs" by simp
  show ?case
    unfolding r e by (rule len_Cat [OF h Cons.IH [OF r']])
qed

lemma len_lits:
  "\<forall>x y. y \<in> set (ms (lits s) ci x) \<longrightarrow> length (fst (snd y)) + length s = length (fst (snd x))"
proof (induction s)
  case Nil
  then show ?case by (simp add: lits_def)
next
  case (Cons c cs)
  have l: "lits (c # cs) = Cat (Lit c) (lits cs)" by (simp add: lits_def)
  have e: "length (c # cs) = 1 + length cs" by simp
  show ?case
    unfolding l e by (rule len_Cat [OF len_Lit Cons.IH])
qed

lemma len_tail:
  assumes "rx_of_text server = Some srv"
    and "y \<in> set (ms (seq [Lit CHR ''_'', srv, Dot, lits ''txt'']) ci x)"
  shows "length (fst (snd y)) + (length server + 5) = length (fst (snd x))"
proof -
  have s: "seq [Lit CHR ''_'', srv, Dot, lits ''txt''] =
           Cat (Lit CHR ''_'') (Cat srv (Cat Dot (Cat (lits ''txt'') Eps)))"
    by (simp add: seq_def)
  note a = len_Cat [OF len_lits [of "''txt''" ci] len_Eps [of ci]]
  note b = len_Cat [OF len_Dot [of ci] a]
  note c = len_Cat [OF len_rx_of_text [OF assms(1), of ci] b]
  note d = len_Cat [OF len_Lit [of "CHR ''_''" ci] c]
  from d assms(2) [unfolded s]
  have "length (fst (snd y)) + (1 + (length server + (1 + (length ''txt'' + 0)))) =
        length (fst (snd x))"
    by blast
  then show ?thesis by simp
qed

lemma ms_text_exact:
  "rx_of_text s = Some r \<Longrightarrow> ms r False (k, s @ rest, g) = [(k + length s, rest, g)]"
proof (induction s arbitrary: r k)
  case Nil
  then show ?case by simp
next
  case (Cons c cs)
  from Cons.prems obtain r' where r': "rx_of_text cs = Some r'"
    and r: "r = Cat (if c = CHR ''.'' then Dot else Lit c) r'"
    by (auto split: if_splits option.splits)
  from Cons.IH [OF r', of "Suc k"] r show ?case by simp
qed

lemma leads_text:
  "rx_of_text s = Some r \<Longrightarrow> leads r False (k, s @ rest, g) (k + length s, rest, g)"
  by (simp add: leads_def ms_text_exact)

lemma leads_tail:
  assumes "rx_of_text server = Some srv"
  shows "leads (seq [Lit CHR ''_'', srv, Dot, lits ''txt'']) False
           (k, ''_'' @ server @ ''.txt'', g) (k + (length server + 5), [], g)"
proof -
  have d: "leads Dot False (j, CHR ''.'' # t, g) (Suc j, t, g)" for j t
    by (simp add: leads_def)
  have n: "Suc (Suc k + length server) + length ''txt'' = k + (length server + 5)"
    by simp
  have t: "CHR ''_'' # (server @ (CHR ''.'' # (''txt'' @ []))) = ''_'' @ server @ ''.txt''"
    by simp
  have "leads (seq [Lit CHR ''_'', srv, Dot, lits ''txt'']) False
           (k, CHR ''_'' # (server @ (CHR ''.'' # (''txt'' @ []))), g)
           (Suc (Suc k + length server) + length ''txt'', [], g)"
    apply (rule leads_seq_Cons, rule leads_Lit)
    apply (rule leads_seq_Cons, rule leads_text [OF assms])
    apply (rule leads_seq_Cons, rule d)
    apply (rule leads_seq_Cons, rule leads_lits)
    apply (rule leads_seq_Nil)
    done
  then show ?thesis unfolding n t .
qed

lemma charname_backtrack:
  assumes "rx_of_text server = Some srv" "name \<noteq> []"
    and "list_all (\<lambda>a. is_word a \<or> a = CHR '' '') name"
  shows "leads (seq [named_ws n, Lit CHR ''_'', srv, Dot, lits ''txt'']) False
           (k, name @ ''_'' @ server @ ''.txt'', g)
           (k + length name + (length server + 5), [], (n, name) # g)"
proof -
  let ?P = "\<lambda>a. is_word a \<or> a = CHR '' ''"
  let ?T = "seq [Lit CHR ''_'', srv, Dot, lits ''txt'']"
  define suf where "suf = ''_'' @ server @ ''.txt''"
  define run where "run = takeWhile ?P suf"
  define rest where "rest = dropWhile ?P suf"
  let ?x = "(k, name @ suf, g)"
  from assms(2) obtain a nm where name: "name = a # nm" by (cases name) auto
  have suf: "run @ rest = suf"
    unfolding run_def rest_def by (rule takeWhile_dropWhile_id)
  have len: "length suf = length server + 5"
    by (simp add: suf_def)
  have rest: "rest = [] \<or> \<not> in_class False [W, Ch CHR '' ''] (hd rest)"
    unfolding in_class_ws rest_def using hd_dropWhile [of ?P suf] by blast
  have a: "in_class False [W, Ch CHR '' ''] a"
    using assms(3) name by (simp add: in_class_ws)
  have "\<forall>c \<in> set run. ?P c"
    unfolding run_def by (auto dest: set_takeWhileD)
  then have all: "list_all (in_class False [W, Ch CHR '' '']) (nm @ run)"
    using assms(3) name by (auto simp: in_class_ws list_all_iff)
  have x: "(k, a # (nm @ run) @ rest, g) = ?x"
    using suf name by simp
  have plus: "ms (Plus (Cls [W, Ch CHR '' ''])) False ?x = backs (Suc k) (nm @ run) rest g"
    using ms_Plus_class [OF a all rest, of k g] unfolding x .
  have split: "backs (Suc k) (nm @ run) rest g =
        butlast (backs (Suc k + length nm) run rest g) @ backs (Suc k) nm (run @ rest) g"
    by (rule backs_append)
  obtain ys where ys: "backs (Suc k) nm (run @ rest) g = (Suc k + length nm, run @ rest, g) # ys"
    using backs_hd by blast
  let ?B = "butlast (backs (Suc k + length nm) run rest g)"
  have short: "ms ?T False (capture n ?x y) = []" if y: "y \<in> set ?B" for y
  proof (rule ccontr)
    assume "ms ?T False (capture n ?x y) \<noteq> []"
    then obtain w where w: "w \<in> set (ms ?T False (capture n ?x y))"
      by (cases "ms ?T False (capture n ?x y)") auto
    have c: "fst (snd (capture n ?x y)) = fst (snd y)"
      by (cases y) (simp add: capture_def)
    from len_tail [OF assms(1) w] c
    have "length (fst (snd w)) + (length server + 5) = length (fst (snd y))" by simp
    moreover from backs_butlast_rem [OF y]
    have "length (fst (snd y)) < length (run @ rest)" .
    ultimately show False unfolding suf len by simp
  qed
  have B: "concat (map (ms ?T False) (map (capture n ?x) ?B)) = []"
    using short by simp
  have cap: "capture n ?x (Suc k + length nm, run @ rest, g) =
        (k + length name, suf, (n, name) # g)"
    unfolding suf using name by (simp add: capture_def)
  from leads_tail [OF assms(1), of "k + length name" "(n, name) # g"]
  obtain zs where zs: "ms ?T False (k + length name, suf, (n, name) # g) =
        (k + length name + (length server + 5), [], (n, name) # g) # zs"
    unfolding suf_def by (auto simp: leads_def)
  have s: "seq [named_ws n, Lit CHR ''_'', srv, Dot, lits ''txt''] =
        Cat (Grp n (Plus (Cls [W, Ch CHR '' '']))) ?T"
    by (simp add: seq_def named_ws_def)
  have "ms (Cat (Grp n (Plus (Cls [W, Ch CHR '' '']))) ?T) False ?x =
        concat (map (ms ?T False) (map (capture n ?x)
          (?B @ (Suc k + length nm, run @ rest, g) # ys)))"
    using plus split ys by simp
  also have "\<dots> = ms ?T False (k + length name, suf, (n, name) # g) @
        concat (map (ms ?T False) (map (capture n ?x) ys))"
    using B cap by simp
  finally have "leads (Cat (Grp n (Plus (Cls [W, Ch CHR '' '']))) ?T) False ?x
        (k + length name + (length server + 5), [], (n, name) # g)"
    unfolding leads_def using zs by simp
  then show ?thesis
    unfolding s suf_def .
qed

lemma charname_regexp_match:
  assumes "charname_regexp e = Some r" "name \<noteq> []"
    and "list_all (\<lambda>a. is_word a \<or> a = CHR '' '') name"
  shows "re_match r False (build_filename e name) = Some [(''charname'', name)]"
proof -
  from assms(1) obtain dir srv where
    dir: "rx_of_text (base_directory e @ logs_directory e) = Some dir"
    and srv: "rx_of_text (server_name e) = Some srv"
    and r: "r = seq [dir, lits ''eqlog_'', named_ws ''charname'', Lit CHR ''_'', srv, Dot,
                     lits ''txt'']"
    by (auto simp: charname_regexp_def split: option.splits)
  let ?d = "base_directory e @ logs_directory e"
  have "leads r False
          (0, ?d @ (''eqlog_'' @ (name @ ''_'' @ server_name e @ ''.txt'')), [])
          (0 + length ?d + length ''eqlog_'' + length name + (length (server_name e) + 5), [],
           [(''charname'', name)])"
    unfolding r
    apply (rule leads_seq_Cons, rule leads_text [OF dir])
    apply (rule leads_seq_Cons, rule leads_lits)
    apply (rule charname_backtrack [OF srv assms(2,3)])
    done
  then have "leads r False (0, build_filename e name, [])
          (0 + length ?d + length ''eqlog_'' + length name + (length (server_name e) + 5), [],
           [(''charname'', name)])"
    by (simp add: build_filename_def)
  from re_match_leads [OF this] show ?thesis .
qed

lemma sorted_key_last:
  assumes "sorted (map k ys)" "x \<in> set ys"
  shows "k x \<le> k (last ys)"
proof -
  from assms(2) have ne: "ys \<noteq> []" by auto
  then have ys: "ys = butlast ys @ [last ys]" by simp
  show ?thesis
  proof (cases "x = last ys")
    case True
    then show ?thesis by simp
  next
    case False
    with assms(2) ys have x: "x \<in> set (butlast ys)"
      by (metis Un_iff empty_iff empty_set set_ConsD set_append)
    from assms(1) ys have "sorted (map k (butlast ys) @ [k (last ys)])"
      by (metis list.simps(8) list.simps(9) map_append)
    then have "\<forall>a \<in> set (map k (butlast ys)). a \<le> k (last ys)"
      by (simp add: sorted_append)
    with x show ?thesis by simp
  qed
qed

lemma sort_latest_first_hd:
  assumes "f \<in> set files"
    and "\<forall>g \<in> set files. g \<noteq> f \<longrightarrow> getmtime fs g < getmtime fs f"
  shows "\<exists>rest. sort_latest_first fs files = f # rest"
proof -
  let ?ys = "sort_key (getmtime fs) (rev files)"
  have set: "set ?ys = set files" by simp
  have "length ?ys = length files" by simp
  moreover from assms(1) have "files \<noteq> []" by auto
  ultimately have ne: "?ys \<noteq> []" by (metis length_0_conv)
  have sorted: "sorted (map (getmtime fs) ?ys)" by (rule sorted_sort_key)
  from assms(1) set have "f \<in> set ?ys" by simp
  from sorted_key_last [OF sorted this]
  have le: "getmtime fs f \<le> getmtime fs (last ?ys)" .
  have "last ?ys \<in> set files"
    using last_in_set [OF ne] set by simp
  with assms(2) le have l: "last ?ys = f" by force
  from ne l have e: "?ys = butlast ?ys @ [f]"
    by (metis append_butlast_last_id)
  have "rev ?ys = f # rev (butlast ?ys)"
    by (metis e rev_eq_Cons_iff rev_rev_ident)
  then show ?thesis
    unfolding sort_latest_first_def by blast
qed

lemma open_latest_selects:
  assumes "charname_regexp e = Some r"
    and "f \<in> set (glob_glob fs (log_mask e))"
    and "\<forall>g \<in> set (glob_glob fs (log_mask e)). g \<noteq> f \<longrightarrow> getmtime fs g < getmtime fs f"
    and "f = build_filename e name" and "name \<noteq> []"
    and "list_all (\<lambda>a. is_word a \<or> a = CHR '' '') name"
  shows "open_latest fs e seek_end =
           (if is_parsing e \<and> filename e = f then Returned (False, e, [])
            else if is_parsing e
            then (case elf_close e of
                    Inl err \<Rightarrow> Raised err
                  | Inr (e1, ops1) \<Rightarrow>
                      (case elf_open fs e1 name f seek_end of
                         (rv, e2, ops2) \<Rightarrow> Returned (rv, e2, ops1 @ ops2)))
            else Returned (elf_open fs e name f seek_end))"
proof -
  from sort_latest_first_hd [OF assms(2,3)] obtain rest where
    s: "sort_latest_first fs (glob_glob fs (log_mask e)) = f # rest" by blast
  have m: "re_match r False f = Some [(''charname'', name)]"
    unfolding assms(4) by (rule charname_regexp_match [OF assms(1,5,6)])
  have g: "py_str_opt (group [(''charname'', name)] ''charname'') = name"
    by (simp add: group_def py_str_opt_def)
  have l: "base_directory e @ logs_directory e @ ''eqlog_*_'' @ server_name e @ ''.txt'' =
           log_mask e"
    by (simp add: log_mask_def)
  show ?thesis
    unfolding open_latest_def l Let_def s
    by (simp add: assms(1) m g cong: sum.case_cong)
qed


lemma example_plain: "charname_regexp example_elf \<noteq> None"
  by (simp add: charname_regexp_def example_elf_def EverquestLogFile_init_def Let_def
      example_base_def example_logs_def rx_special_def)

lemma example_fields:
  "base_directory example_elf = example_base"
  "logs_directory example_elf = example_logs"
  "server_name example_elf = ''P1999Green''"
  "parsing example_elf = False"
  by (simp_all add: example_elf_def EverquestLogFile_init_def Let_def)

lemma example_names:
  "build_filename example_elf ''Azleep'' \<noteq> build_filename example_elf ''Berrma Two''"
  "build_filename example_elf ''Snoiche'' \<noteq> build_filename example_elf ''Berrma Two''"
  "build_filename example_elf ''Berrma Two'' \<noteq> build_filename example_elf ''Azleep''"
  "build_filename example_elf ''Snoiche'' \<noteq> build_filename example_elf ''Azleep''"
  by (simp_all add: build_filename_def)

lemma example_listing:
  "glob_glob example_fs (log_mask example_elf) =
     [build_filename example_elf ''Azleep'', build_filename example_elf ''Berrma Two'',
      build_filename example_elf ''Snoiche'']"
  by (simp add: example_fs_def log_mask_def example_fields)

lemma example_mtimes:
  "getmtime example_fs (build_filename example_elf ''Azleep'') = 1660000000"
  "getmtime example_fs (build_filename example_elf ''Berrma Two'') = 1663500000"
  "getmtime example_fs (build_filename example_elf ''Snoiche'') = 1661000000"
  by (simp_all add: example_fs_def example_names)

lemma example_latest:
  "build_filename example_elf ''Berrma Two'' \<in> set (glob_glob example_fs (log_mask example_elf))"
  "\<forall>g \<in> set (glob_glob example_fs (log_mask example_elf)).
     g \<noteq> build_filename example_elf ''Berrma Two'' \<longrightarrow>
     getmtime example_fs g < getmtime example_fs (build_filename example_elf ''Berrma Two'')"
  by (simp_all add: example_listing example_mtimes)

lemma Berrma_name: "list_all (\<lambda>a. is_word a \<or> a = CHR '' '') ''Berrma Two''"
  by (simp add: is_word_def)


text \<open>
  C4. Nothing to do, and nothing to open. When \<open>glob\<close> returns no file for the mask,
  \<open>open_latest\<close> raises the \<open>ValueError\<close> that names the base directory and does not
  return. When the tailer is parsing and the file it parses is the latest of the
  listing (a file of the naming convention, the configuration being plain text),
  \<open>open_latest\<close> returns \<open>False\<close>, makes no call on a file handle (no \<open>close\<close>, no \<open>open\<close>,
  no \<open>seek\<close>) and leaves every field of the tailer as it was: the file name, the
  character name, the handle with its position, and the parsing flag.
\<close>

theorem open_latest_nothing_to_do:
  "(glob_glob fs (log_mask e) = [] \<longrightarrow>
      open_latest fs e seek_end =
        Raised (ValueError (''Unable to open any log files in directory ['' @
                            base_directory e @ '']''))) \<and>
   (charname_regexp e \<noteq> None \<and>
    f \<in> set (glob_glob fs (log_mask e)) \<and>
    (\<forall>g \<in> set (glob_glob fs (log_mask e)). g \<noteq> f \<longrightarrow> getmtime fs g < getmtime fs f) \<and>
    f = build_filename e name \<and> name \<noteq> [] \<and>
    list_all (\<lambda>a. is_word a \<or> a = CHR '' '') name \<and>
    is_parsing e \<and> filename e = f \<longrightarrow>
      open_latest fs e seek_end = Returned (False, e, []))"
proof (intro conjI impI)
  assume "glob_glob fs (log_mask e) = []"
  then show "open_latest fs e seek_end =
        Raised (ValueError (''Unable to open any log files in directory ['' @
                            base_directory e @ '']''))"
    by (simp add: open_latest_def log_mask_def sort_latest_first_def Let_def)
next
  assume a: "charname_regexp e \<noteq> None \<and>
    f \<in> set (glob_glob fs (log_mask e)) \<and>
    (\<forall>g \<in> set (glob_glob fs (log_mask e)). g \<noteq> f \<longrightarrow> getmtime fs g < getmtime fs f) \<and>
    f = build_filename e name \<and> name \<noteq> [] \<and>
    list_all (\<lambda>a. is_word a \<or> a = CHR '' '') name \<and>
    is_parsing e \<and> filename e = f"
  then obtain r where r: "charname_regexp e = Some r" by auto
  from a have h: "f \<in> set (glob_glob fs (log_mask e))"
    "\<forall>g \<in> set (glob_glob fs (log_mask e)). g \<noteq> f \<longrightarrow> getmtime fs g < getmtime fs f"
    "f = build_filename e name" "name \<noteq> []"
    "list_all (\<lambda>a. is_word a \<or> a = CHR '' '') name"
    and p: "is_parsing e" "filename e = f"
    by blast+
  from open_latest_selects [OF r h, of seek_end] p
  show "open_latest fs e seek_end = Returned (False, e, [])" by simp
qed

lemma example_open_fields:
  "base_directory example_elf_open = example_base"
  "logs_directory example_elf_open = example_logs"
  "server_name example_elf_open = ''P1999Green''"
  "parsing example_elf_open = True"
  "filename example_elf_open = build_filename example_elf ''Berrma Two''"
  by (simp_all add: example_elf_open_def example_fields)

theorem open_latest_nothing_to_do_witness:
  "glob_glob empty_fs (log_mask example_elf) = [] \<and>
   open_latest empty_fs example_elf True =
     Raised (ValueError (''Unable to open any log files in directory ['' @ example_base @ '']'')) \<and>
   charname_regexp example_elf_open \<noteq> None \<and>
   glob_glob example_fs (log_mask example_elf_open) =
     [build_filename example_elf_open ''Azleep'', build_filename example_elf_open ''Berrma Two'',
      build_filename example_elf_open ''Snoiche''] \<and>
   is_parsing example_elf_open \<and>
   filename example_elf_open = build_filename example_elf_open ''Berrma Two'' \<and>
   open_latest example_fs example_elf_open True = Returned (False, example_elf_open, [])"
proof -
  let ?f = "build_filename example_elf_open ''Berrma Two''"
  have b: "build_filename example_elf_open = build_filename example_elf"
    by (rule ext) (simp add: build_filename_def example_open_fields example_fields)
  have m: "log_mask example_elf_open = log_mask example_elf"
    by (simp add: log_mask_def example_open_fields example_fields)
  have c: "charname_regexp example_elf_open \<noteq> None"
    using example_plain
    by (simp add: charname_regexp_def example_open_fields example_fields)
  have e: "glob_glob empty_fs (log_mask example_elf) = []"
    by (simp add: empty_fs_def)
  have p: "is_parsing example_elf_open" "filename example_elf_open = ?f"
    by (simp_all add: is_parsing_def example_open_fields b)
  have l: "?f \<in> set (glob_glob example_fs (log_mask example_elf_open))"
    "\<forall>g \<in> set (glob_glob example_fs (log_mask example_elf_open)).
       g \<noteq> ?f \<longrightarrow> getmtime example_fs g < getmtime example_fs ?f"
    unfolding m b by (rule example_latest)+
  have n: "''Berrma Two'' \<noteq> []" by simp
  from open_latest_nothing_to_do [of empty_fs example_elf True] e
  have r1: "open_latest empty_fs example_elf True =
     Raised (ValueError (''Unable to open any log files in directory ['' @ example_base @ '']''))"
    by (simp add: example_fields)
  from open_latest_nothing_to_do [of example_fs example_elf_open True ?f "''Berrma Two''"]
    c l n Berrma_name p
  have r2: "open_latest example_fs example_elf_open True = Returned (False, example_elf_open, [])"
    by blast
  have g: "glob_glob example_fs (log_mask example_elf_open) =
     [build_filename example_elf_open ''Azleep'', build_filename example_elf_open ''Berrma Two'',
      build_filename example_elf_open ''Snoiche'']"
    unfolding m b by (rule example_listing)
  from e r1 c g p r2 show ?thesis by blast
qed

end
